theory Spec2Isabelle
  imports Complex_Main "HOL-Library.Monad_Syntax"
begin

section \<open>Numeric model\<close>

text \<open>
  The stretcher computes on C++ \<open>double\<close> and \<open>float\<close> values and tests them with
  \<open>std::isnan\<close>. A value is modelled as a not-a-number, one of the two infinities, or a
  finite real. The special values follow IEEE 754 (a not-a-number propagates and compares
  false with everything, \<open>inf - inf\<close>, \<open>0 * inf\<close>, \<open>0 / 0\<close> and \<open>inf / inf\<close> are
  not-a-number, a nonzero finite value divided by zero is an infinity). Arithmetic on finite
  values is exact real arithmetic: rounding to the nearest representable value, overflow of
  a finite result to an infinity and the sign of zero are outside this model.
\<close>

datatype double = NaN | PInf | MInf | Fin real

fun isnan :: "double \<Rightarrow> bool" where
  "isnan NaN = True"
| "isnan _ = False"

fun isfinite :: "double \<Rightarrow> bool" where
  "isfinite (Fin _) = True"
| "isfinite _ = False"

fun dneg :: "double \<Rightarrow> double" where
  "dneg NaN = NaN"
| "dneg PInf = MInf"
| "dneg MInf = PInf"
| "dneg (Fin x) = Fin (- x)"

fun dadd :: "double \<Rightarrow> double \<Rightarrow> double" where
  "dadd NaN _ = NaN"
| "dadd _ NaN = NaN"
| "dadd PInf MInf = NaN"
| "dadd MInf PInf = NaN"
| "dadd PInf _ = PInf"
| "dadd _ PInf = PInf"
| "dadd MInf _ = MInf"
| "dadd _ MInf = MInf"
| "dadd (Fin x) (Fin y) = Fin (x + y)"

definition dsub :: "double \<Rightarrow> double \<Rightarrow> double" where
  "dsub a b = dadd a (dneg b)"

text \<open>The infinity whose sign is that of \<open>s\<close> (positive for \<open>0 < s\<close>).\<close>

definition inf_of_sign :: "real \<Rightarrow> double" where
  "inf_of_sign s = (if 0 < s then PInf else MInf)"

fun dmul :: "double \<Rightarrow> double \<Rightarrow> double" where
  "dmul NaN _ = NaN"
| "dmul _ NaN = NaN"
| "dmul (Fin x) (Fin y) = Fin (x * y)"
| "dmul (Fin x) PInf = (if x = 0 then NaN else inf_of_sign x)"
| "dmul (Fin x) MInf = (if x = 0 then NaN else inf_of_sign (- x))"
| "dmul PInf (Fin y) = (if y = 0 then NaN else inf_of_sign y)"
| "dmul MInf (Fin y) = (if y = 0 then NaN else inf_of_sign (- y))"
| "dmul PInf PInf = PInf"
| "dmul PInf MInf = MInf"
| "dmul MInf PInf = MInf"
| "dmul MInf MInf = PInf"

fun ddiv :: "double \<Rightarrow> double \<Rightarrow> double" where
  "ddiv NaN _ = NaN"
| "ddiv _ NaN = NaN"
| "ddiv (Fin x) (Fin y) =
     (if y = 0 then (if x = 0 then NaN else inf_of_sign x) else Fin (x / y))"
| "ddiv (Fin x) PInf = Fin 0"
| "ddiv (Fin x) MInf = Fin 0"
| "ddiv PInf (Fin y) = (if 0 \<le> y then PInf else MInf)"
| "ddiv MInf (Fin y) = (if 0 \<le> y then MInf else PInf)"
| "ddiv PInf PInf = NaN"
| "ddiv PInf MInf = NaN"
| "ddiv MInf PInf = NaN"
| "ddiv MInf MInf = NaN"

fun dabs :: "double \<Rightarrow> double" where
  "dabs NaN = NaN"
| "dabs PInf = PInf"
| "dabs MInf = PInf"
| "dabs (Fin x) = Fin \<bar>x\<bar>"

text \<open>
  \<open>std::round\<close> rounds to the nearest integer and halfway cases away from zero; the
  \<open>round\<close> of HOL rounds halfway cases upwards, so the C rule is written out.
\<close>

definition cround :: "real \<Rightarrow> int" where
  "cround x = (if 0 \<le> x then \<lfloor>x + 1 / 2\<rfloor> else \<lceil>x - 1 / 2\<rceil>)"

fun dround :: "double \<Rightarrow> double" where
  "dround (Fin x) = Fin (of_int (cround x))"
| "dround d = d"

text \<open>\<open>std::ceil\<close>.\<close>

fun dceil :: "double \<Rightarrow> double" where
  "dceil (Fin x) = Fin (of_int \<lceil>x\<rceil>)"
| "dceil d = d"

text \<open>The comparisons \<open><\<close>, \<open>==\<close> and \<open>!=\<close>; every ordered comparison with a not-a-number is false.\<close>

fun dless :: "double \<Rightarrow> double \<Rightarrow> bool" where
  "dless NaN _ = False"
| "dless _ NaN = False"
| "dless PInf _ = False"
| "dless _ MInf = False"
| "dless MInf _ = True"
| "dless _ PInf = True"
| "dless (Fin x) (Fin y) = (x < y)"

fun deq :: "double \<Rightarrow> double \<Rightarrow> bool" where
  "deq NaN _ = False"
| "deq _ NaN = False"
| "deq a b = (a = b)"

definition dne :: "double \<Rightarrow> double \<Rightarrow> bool" where
  "dne a b = (\<not> deq a b)"

text \<open>
  \<open>int\<close> is the 32-bit signed integer. The conversion of a floating-point value to
  \<open>int\<close> truncates towards zero and has no defined result when the truncated value is not
  representable (also for a not-a-number and the infinities); overflow of signed
  \<open>int\<close> arithmetic has no defined result either. Both are the value \<open>None\<close>. A shift
  \<open>1 << n\<close> is defined for \<open>0 \<le> n < 32\<close> and wraps to the least \<open>int\<close> at \<open>n = 31\<close>.
\<close>

definition INT_MIN :: int where
  "INT_MIN = - (2 ^ 31)"

definition INT_MAX :: int where
  "INT_MAX = 2 ^ 31 - 1"

definition chk :: "int \<Rightarrow> int option" where
  "chk i = (if INT_MIN \<le> i \<and> i \<le> INT_MAX then Some i else None)"

definition ctrunc :: "real \<Rightarrow> int" where
  "ctrunc x = (if 0 \<le> x then \<lfloor>x\<rfloor> else \<lceil>x\<rceil>)"

fun to_int :: "double \<Rightarrow> int option" where
  "to_int (Fin x) = chk (ctrunc x)"
| "to_int _ = None"

definition of_int32 :: "int \<Rightarrow> double" where
  "of_int32 i = Fin (of_int i)"

definition shl1 :: "int \<Rightarrow> int option" where
  "shl1 n = (if 0 \<le> n \<and> n < 31 then Some (2 ^ nat n)
             else if n = 31 then Some INT_MIN else None)"

text \<open>\<open>std::clamp(v, lo, hi)\<close>, which requires \<open>lo \<le> hi\<close>.\<close>

definition clamp :: "int \<Rightarrow> int \<Rightarrow> int \<Rightarrow> int option" where
  "clamp v lo hi = (if hi < lo then None else Some (if v < lo then lo else if hi < v then hi else v))"

section \<open>Instrumentation: the call-order guard\<close>

text \<open>
  \<open>Instrumentation\<close> (Instrumentation.h) holds the flag \<open>enabled\<close> and the index
  \<open>expected\<close> of the stretcher function that must be called next. Its member \<open>log\<close>
  (here \<open>log_sink\<close>, since \<open>log\<close> is the logarithm) writes its
  message to the sink only when \<open>enabled\<close> is set; the model returns the messages written.
  \<open>Call\<close> is the constructor \<open>Instrumentation::Call::Call\<close>: the process either aborts,
  having written the given messages, or goes on with the updated instrumentation.
\<close>

record Instrumentation =
  enabled :: bool
  expected :: int
  firstGrain :: bool

definition Instrumentation_init :: Instrumentation where
  "Instrumentation_init = \<lparr>enabled = False, expected = 0, firstGrain = True\<rparr>"

definition enableInstrumentation :: "Instrumentation \<Rightarrow> bool \<Rightarrow> Instrumentation" where
  "enableInstrumentation i enable = i\<lparr>enabled := enable\<rparr>"

definition log_sink :: "Instrumentation \<Rightarrow> string \<Rightarrow> string list" where
  "log_sink i message = (if enabled i then [message] else [])"

definition names :: "string list" where
  "names = [''specifyGrain'', ''analyseGrain'', ''synthesiseGrain'']"

definition fatal_message :: "int \<Rightarrow> int \<Rightarrow> string" where
  "fatal_message sequence expect =
     ''FATAL: stretcher functions called in the wrong order: '' @ names ! nat sequence
       @ '' was called when expecting a call to '' @ names ! nat expect"

datatype 'a outcome = Abort "string list" | Return 'a

text \<open>
  The callers pass the literals 0, 1 and 2 for \<open>sequence\<close>, and \<open>expected\<close> only ever
  holds 0 or a value \<open>(sequence + 1) % 3\<close>: both index the table \<open>names\<close> within its
  bounds, and the remainder is taken of a non-negative number, where the C++ \<open>%\<close> and
  \<open>mod\<close> agree.
\<close>

definition Call :: "Instrumentation \<Rightarrow> int \<Rightarrow> Instrumentation outcome" where
  "Call instrumentation sequence =
     (if sequence \<noteq> expected instrumentation
      then Abort (log_sink instrumentation (fatal_message sequence (expected instrumentation)))
      else Return (instrumentation\<lparr>expected := (sequence + 1) mod 3\<rparr>))"

text \<open>
  The three stretcher functions open with \<open>Instrumentation::Call call(this, 0)\<close>,
  \<open>call(this, 1)\<close> and \<open>call(this, 2)\<close> respectively (Stretcher.cpp).
\<close>

datatype operation = SpecifyGrain | AnalyseGrain | SynthesiseGrain

fun sequence_of :: "operation \<Rightarrow> int" where
  "sequence_of SpecifyGrain = 0"
| "sequence_of AnalyseGrain = 1"
| "sequence_of SynthesiseGrain = 2"

text \<open>A sequence of stretcher calls, as far as the guard is concerned: it stops at the first abort.\<close>

fun calls :: "Instrumentation \<Rightarrow> operation list \<Rightarrow> Instrumentation outcome" where
  "calls i [] = Return i"
| "calls i (f # fs) =
     (case Call i (sequence_of f) of Abort ms \<Rightarrow> Abort ms | Return i' \<Rightarrow> calls i' fs)"

text \<open>The strict cycle: the operation that stands at index \<open>k\<close> of a sequence that starts with \<open>specifyGrain\<close>.\<close>

definition cycle_at :: "nat \<Rightarrow> operation" where
  "cycle_at k = (if k mod 3 = 0 then SpecifyGrain else if k mod 3 = 1 then AnalyseGrain else SynthesiseGrain)"

definition in_cycle :: "operation list \<Rightarrow> bool" where
  "in_cycle fs = (fs = map cycle_at [0 ..< length fs])"

section \<open>Resampler selection\<close>

text \<open>
  Modelled from the spec: the enumeration \<open>ResampleMode\<close> of \<open>bungee/Modes.h\<close>, which is
  not among the sources; the spec lists its five values.
\<close>

datatype ResampleMode =
    resampleMode_autoOut
  | resampleMode_autoIn
  | resampleMode_autoInOut
  | resampleMode_forceOut
  | resampleMode_forceIn

text \<open>
  \<open>Operation::function\<close> is a pointer to one instantiation of \<open>Resample::resample\<close> or
  null; \<open>setup\<close> stores \<open>resample<Bilinear, Input>\<close> or \<open>resample<Bilinear, Output>\<close>.
  The field is called \<open>func\<close> here, and null is \<open>None\<close>: the resampler is engaged when the
  pointer is not null.
\<close>

datatype Function = resample_Bilinear_Input | resample_Bilinear_Output

record Operation =
  func :: "Function option"
  ratio :: double

text \<open>
  The members \<open>input\<close> and \<open>output\<close> of \<open>Operations\<close> and of \<open>SampleRates\<close> are
  keywords of Isabelle; they are \<open>input_op\<close>, \<open>output_op\<close>, \<open>input_rate\<close> and
  \<open>output_rate\<close> here.
\<close>

record Operations =
  input_op :: Operation
  output_op :: Operation

record SampleRates =
  input_rate :: int
  output_rate :: int

definition Operations_init :: Operations where
  "Operations_init = \<lparr>input_op = \<lparr>func = None, ratio = Fin 1\<rparr>, output_op = \<lparr>func = None, ratio = Fin 1\<rparr>\<rparr>"

text \<open>\<open>(double)sampleRates.input / sampleRates.output\<close>\<close>

definition rateRatio :: "SampleRates \<Rightarrow> double" where
  "rateRatio sampleRates =
     ddiv (of_int32 (input_rate sampleRates)) (of_int32 (output_rate sampleRates))"

text \<open>\<open>const double resampleRatio = pitch * sampleRates.input / sampleRates.output\<close>\<close>

definition resampleRatio :: "SampleRates \<Rightarrow> double \<Rightarrow> double" where
  "resampleRatio sampleRates pitch =
     ddiv (dmul pitch (of_int32 (input_rate sampleRates))) (of_int32 (output_rate sampleRates))"

text \<open>
  The chain of tests of \<open>Operations::setup\<close> that clears one or both function pointers,
  in the order of the source. The last branch is the one guarded by
  \<open>BUNGEE_ASSERT1(false)\<close>, which is compiled out at the default self-test level 0
  (Assert.h); it is reached for \<open>autoInOut\<close> when the ratio is a not-a-number.
\<close>

definition select_functions :: "ResampleMode \<Rightarrow> double \<Rightarrow> Function option \<times> Function option" where
  "select_functions resampleMode r =
     (let i = Some resample_Bilinear_Input; out = Some resample_Bilinear_Output in
      if resampleMode = resampleMode_forceOut then (None, out)
      else if resampleMode = resampleMode_forceIn then (i, None)
      else if deq r (Fin 1) then (None, None)
      else if resampleMode = resampleMode_autoIn then (i, None)
      else if resampleMode = resampleMode_autoOut then (None, out)
      else if resampleMode = resampleMode_autoInOut \<and> dless (Fin 1) r then (i, None)
      else if resampleMode = resampleMode_autoInOut \<and> dless r (Fin 1) then (None, out)
      else (None, out))"

text \<open>
  \<open>Operations::setup\<close> (\<open>setup\<close> is a keyword of Isabelle) overwrites both operations
  and returns the residual rate ratio; the model returns that ratio together with the new
  operations.
\<close>

definition Operations_setup :: "SampleRates \<Rightarrow> double \<Rightarrow> ResampleMode \<Rightarrow> double \<times> Operations" where
  "Operations_setup sampleRates pitch resampleMode =
     (let r = resampleRatio sampleRates pitch;
          (fi, fo) = select_functions resampleMode r;
          inp = \<lparr>func = fi, ratio = (if fi = None then Fin 1 else ddiv (Fin 1) r)\<rparr>
      in if fo \<noteq> None
         then (ddiv (rateRatio sampleRates) r, \<lparr>input_op = inp, output_op = \<lparr>func = fo, ratio = r\<rparr>\<rparr>)
         else (rateRatio sampleRates, \<lparr>input_op = inp, output_op = \<lparr>func = fo, ratio = Fin 1\<rparr>\<rparr>))"

section \<open>Grain\<close>

text \<open>
  \<open>Request\<close>, \<open>InputChunk\<close> (Bungee.h) and the part of \<open>Grain\<close> (Grain.h) that
  \<open>Grain::specify\<close> and the stretcher's bookkeeping read and write. The spectral buffers
  (\<open>transformed\<close>, \<open>phase\<close>, \<open>energy\<close>, \<open>rotation\<close>, \<open>delta\<close>, \<open>partials\<close>), the sample
  storage and the output segment are not part of this state. The members \<open>begin\<close> and
  \<open>end\<close> of \<open>InputChunk\<close> are \<open>chunk_begin\<close> and \<open>chunk_end\<close>, the member \<open>speed\<close> of
  \<open>Analysis\<close> is \<open>analysis_speed\<close>, the member \<open>continuous\<close> is \<open>grain_continuous\<close>, and
  \<open>inputResampled.frameCount\<close> is \<open>inputResampled_frameCount\<close>.
\<close>

record Request =
  position :: double
  speed :: double
  pitch :: double
  reset :: bool
  resampleMode :: ResampleMode

record InputChunk =
  chunk_begin :: int
  chunk_end :: int

record Analysis =
  positionError :: double
  hopIdeal :: double
  analysis_speed :: double
  hop :: int

record Grain =
  log2TransformLength :: int
  request :: Request
  requestHop :: double
  grain_continuous :: bool
  passthrough :: int
  validBinCount :: int
  muteFrameCountHead :: int
  muteFrameCountTail :: int
  resampleOperations :: Operations
  inputChunk :: InputChunk
  analysis :: Analysis
  inputResampled_frameCount :: int

text \<open>
  The constructor \<open>Grain::Grain\<close>. It assigns \<open>position\<close>, \<open>speed\<close> and \<open>pitch\<close> of the
  request and leaves \<open>reset\<close> and \<open>resampleMode\<close> as they happen to be: \<open>uninitialised\<close>
  stands for the indeterminate initial contents of the member. The other members have the
  default initialisers of Grain.h.
\<close>

definition Grain_init :: "int \<Rightarrow> Request \<Rightarrow> Grain" where
  "Grain_init log2SynthesisHop uninitialised =
     \<lparr>log2TransformLength = log2SynthesisHop + 3,
      request = uninitialised\<lparr>position := NaN, speed := NaN, pitch := Fin 1\<rparr>,
      requestHop = Fin 0,
      grain_continuous = False,
      passthrough = 0,
      validBinCount = 0,
      muteFrameCountHead = 0,
      muteFrameCountTail = 0,
      resampleOperations = Operations_init,
      inputChunk = \<lparr>chunk_begin = 0, chunk_end = 0\<rparr>,
      analysis = \<lparr>positionError = Fin 0, hopIdeal = Fin 0, analysis_speed = Fin 0, hop = 0\<rparr>,
      inputResampled_frameCount = 0\<rparr>"

definition valid :: "Grain \<Rightarrow> bool" where
  "valid grain = (\<not> isnan (position (request grain)))"

definition reverse :: "Grain \<Rightarrow> bool" where
  "reverse grain = (hop (analysis grain) < 0)"

text \<open>
  The hop and position error of \<open>Grain::specify\<close> (Grain.cpp, the lines from
  \<open>requestHop = ...\<close> to the end of the \<open>if (continuous)\<close> statement), for the unit hop,
  the input ratio, the request and the previous grain. The result is the request hop after
  the fallback, the ideal hop, the flag \<open>continuous\<close>, the position error and the rounded
  hop. The diagnostic message about a speed that disagrees with the positions is not
  modelled: it changes no state.
\<close>

definition specify_hop ::
  "double \<Rightarrow> double \<Rightarrow> Request \<Rightarrow> Grain \<Rightarrow> (double \<times> double \<times> bool \<times> double \<times> int) option" where
  "specify_hop unitHop inputRatio r previous = do {
     let difference = dsub (position r) (position (request previous));
     let requestHop' = (if isnan difference \<or> reset r then dmul (speed r) unitHop else difference);
     let hopIdeal' = dmul requestHop' inputRatio;
     let continuous' = (\<not> reset r \<and> \<not> isnan (position (request previous)));
     if continuous' then do {
       let e = dsub (positionError (analysis previous)) hopIdeal';
       h \<leftarrow> to_int (dround (dneg e));
       Some (requestHop', hopIdeal', continuous', dadd e (of_int32 h), h)
     } else do {
       h \<leftarrow> to_int (dround hopIdeal');
       Some (requestHop', hopIdeal', continuous', dsub (dround (position r)) (position r), h)
     }
   }"

text \<open>
  The block of \<open>Grain::specify\<close> that sets \<open>passthrough\<close>:
  \<open>passthrough = std::abs(analysis.speed) == 1. ? int(analysis.speed) : 0\<close>, cleared when
  the grain is continuous and the previous grain's value differs.
\<close>

definition specify_passthrough :: "double \<Rightarrow> bool \<Rightarrow> Grain \<Rightarrow> int option" where
  "specify_passthrough speed' continuous' previous = do {
     p \<leftarrow> (if deq (dabs speed') (Fin 1) then to_int speed' else Some 0);
     Some (if continuous' \<and> p \<noteq> passthrough previous then 0 else p)
   }"

text \<open>
  The half width of the input chunk: \<open>inputResampled.frameCount / 2\<close>, replaced by
  \<open>int(std::round(halfInputFrameCount / ratio)) + 1\<close> when the input ratio is not 1.
  The frame count is a power of two of at least 8 or the least \<open>int\<close>, where the C++
  division by 2 and \<open>div\<close> agree.
\<close>

definition specify_half :: "int \<Rightarrow> double \<Rightarrow> int option" where
  "specify_half frameCount inputRatio =
     (if dne inputRatio (Fin 1)
      then do {
        h \<leftarrow> to_int (dround (ddiv (of_int32 (frameCount div 2)) inputRatio));
        chk (h + 1)
      }
      else Some (frameCount div 2))"

text \<open>
  The last block of \<open>Grain::specify\<close>: the chunk \<open>[-half, +half)\<close> is stored in the
  grain; for a not-a-number position the empty chunk \<open>InputChunk{}\<close> is returned, and
  otherwise the stored chunk is moved by
  \<open>int(std::round(request.position - bufferStartPosition))\<close> and returned. The result is
  the returned chunk and the chunk stored in the grain.
\<close>

definition specify_chunk :: "int \<Rightarrow> double \<Rightarrow> double \<Rightarrow> (InputChunk \<times> InputChunk) option" where
  "specify_chunk half pos bufferStartPosition = do {
     negative_half \<leftarrow> chk (- half);
     if isnan pos
     then Some (\<lparr>chunk_begin = 0, chunk_end = 0\<rparr>,
                \<lparr>chunk_begin = negative_half, chunk_end = half\<rparr>)
     else do {
       offset \<leftarrow> to_int (dround (dsub pos bufferStartPosition));
       b \<leftarrow> chk (negative_half + offset);
       e \<leftarrow> chk (half + offset);
       Some (\<lparr>chunk_begin = b, chunk_end = e\<rparr>, \<lparr>chunk_begin = b, chunk_end = e\<rparr>)
     }
   }"

text \<open>
  \<open>Grain::specify\<close>. The call \<open>resampleOperations.setup(sampleRates, request.pitch)\<close> of
  Grain.cpp lacks the third argument that \<open>Operations::setup\<close> of Resample.h takes; it is
  the request's \<open>resampleMode\<close>. \<open>BUNGEE_ASSERT1\<close> and the floating-point exception guard
  are compiled out at the default self-test level 0 (Assert.h). The model returns the
  chunk and the updated grain; \<open>None\<close> stands for a call with no defined result.
\<close>

definition specify ::
  "Grain \<Rightarrow> Request \<Rightarrow> Grain \<Rightarrow> SampleRates \<Rightarrow> int \<Rightarrow> double \<Rightarrow> (InputChunk \<times> Grain) option" where
  "specify grain r previous sampleRates log2SynthesisHop bufferStartPosition = do {
     let (residual, operations) = Operations_setup sampleRates (pitch r) (resampleMode r);
     one \<leftarrow> shl1 log2SynthesisHop;
     let unitHop = dmul (of_int32 one) residual;
     (requestHop', hopIdeal', continuous', positionError', hop') \<leftarrow>
        specify_hop unitHop (ratio (input_op operations)) r previous;
     let speed' = ddiv hopIdeal' (of_int32 one);
     passthrough' \<leftarrow> specify_passthrough speed' continuous' previous;
     l \<leftarrow> chk (log2SynthesisHop + 3);
     frameCount \<leftarrow> shl1 l;
     half \<leftarrow> specify_half frameCount (ratio (input_op operations));
     (returned, stored) \<leftarrow> specify_chunk half (position r) bufferStartPosition;
     Some (returned, grain
       \<lparr>request := r,
        resampleOperations := operations,
        requestHop := requestHop',
        grain_continuous := continuous',
        analysis := \<lparr>positionError = positionError', hopIdeal = hopIdeal',
                      analysis_speed = speed', hop = hop'\<rparr>,
        passthrough := passthrough',
        log2TransformLength := l,
        inputResampled_frameCount := frameCount,
        inputChunk := stored\<rparr>)
   }"

text \<open>
  The claimed half width of the input chunk, in the words of the specification:
  the transform length divided by 2, scaled by \<open>1/inputRatio\<close> when the input resampler
  is active. It is compared with \<open>specify_half\<close> below.
\<close>

definition claimed_half :: "int \<Rightarrow> Operation \<Rightarrow> double" where
  "claimed_half transformLength operation =
     (if func operation \<noteq> None
      then dmul (of_int32 (transformLength div 2)) (ddiv (Fin 1) (ratio operation))
      else of_int32 (transformLength div 2))"

text \<open>
  \<open>Grain::inputChunkMap\<close> (Grain.h), as far as the mute counts go: the two counts are
  passed by reference and the function overwrites them. \<open>data_is_null\<close> says whether the
  caller's \<open>data\<close> pointer is null. The result is the frame count of the chunk and the two
  counts on return. The Eigen map over the samples and the diagnostic \<open>overlapCheck\<close>
  read samples and write neither count; the samples are not part of this model.
\<close>

definition inputChunkMap :: "Grain \<Rightarrow> bool \<Rightarrow> int \<Rightarrow> int \<Rightarrow> (int \<times> int \<times> int) option" where
  "inputChunkMap grain data_is_null head tail = do {
     frameCount \<leftarrow> chk (chunk_end (inputChunk grain) - chunk_begin (inputChunk grain));
     let head1 = (if data_is_null then frameCount else head);
     let tail1 = (if data_is_null then 0 else tail);
     head2 \<leftarrow> clamp head1 0 frameCount;
     tail2 \<leftarrow> clamp tail1 0 frameCount;
     Some (frameCount, head2, tail2)
   }"

section \<open>The grain ring and the stretcher\<close>

text \<open>
  \<open>Grains\<close> is a vector of owned grains, a list here. \<open>Grains::flushed\<close> is the loop with
  its early return. \<open>Grains::rotate\<close> (here \<open>Grains_rotate\<close>, \<open>rotate\<close> being a list
  function of HOL) moves the back of the vector to the front; it then swaps spectral
  buffers of the grains 0 and 2, which are not part of this state but must exist.
\<close>

fun flushed :: "Grain list \<Rightarrow> bool" where
  "flushed [] = True"
| "flushed (grain # vector) =
     (if \<not> isnan (position (request grain)) then False else flushed vector)"

definition Grains_rotate :: "Grain list \<Rightarrow> Grain list option" where
  "Grains_rotate vector =
     (if length vector < 3 then None else Some (last vector # butlast vector))"

text \<open>
  The stretcher (Stretcher.h) with its base \<open>Instrumentation\<close>, the members \<open>sampleRates\<close>
  and \<open>log2SynthesisHop\<close> of its base \<open>Timing\<close>, and the ring. Timing.h is not among the
  sources: the constructor takes the synthesis hop that \<open>Timing\<close> derives as a parameter.
  Each of the four grains is constructed on its own storage, with its own indeterminate
  contents.
\<close>

record Stretcher =
  instrumentation :: Instrumentation
  sampleRates :: SampleRates
  log2SynthesisHop :: int
  grains :: "Grain list"

definition Stretcher_init :: "SampleRates \<Rightarrow> int \<Rightarrow> (nat \<Rightarrow> Request) \<Rightarrow> Stretcher" where
  "Stretcher_init rates log2Hop uninitialised =
     \<lparr>instrumentation = Instrumentation_init,
      sampleRates = rates,
      log2SynthesisHop = log2Hop,
      grains = map (\<lambda>k. Grain_init log2Hop (uninitialised k)) [0 ..< 4]\<rparr>"

definition isFlushed :: "Stretcher \<Rightarrow> bool" where
  "isFlushed s = flushed (grains s)"

text \<open>
  \<open>Stretcher::specifyGrain\<close>: the guard, the rotation, and \<open>Grain::specify\<close> on grain 0
  with grain 1 as the previous grain.
\<close>

definition specifyGrain :: "Stretcher \<Rightarrow> Request \<Rightarrow> double \<Rightarrow> (InputChunk \<times> Stretcher) option" where
  "specifyGrain s r bufferStartPosition =
     (case Call (instrumentation s) 0 of
        Abort _ \<Rightarrow> None
      | Return i \<Rightarrow> do {
          vector \<leftarrow> Grains_rotate (grains s);
          (chunk, grain) \<leftarrow> specify (vector ! 0) r (vector ! 1) (sampleRates s)
                              (log2SynthesisHop s) bufferStartPosition;
          Some (chunk, s\<lparr>instrumentation := i, grains := vector[0 := grain]\<rparr>)
        })"

text \<open>
  \<open>Stretcher::analyseGrain\<close> on this state: the guard, the mute counts stored in grain 0,
  and for a valid grain the mute counts as \<open>inputChunkMap\<close> leaves them, the count of
  valid bins and the transform length. Fourier.h and Input.h are not among the sources:
  \<open>Fourier::binCount\<close> and the value that \<open>Input::applyAnalysisWindow\<close> returns are the
  parameters \<open>binCount\<close> and \<open>windowLog2\<close>. The resampling of the input, the windowing,
  the transform and the partials work on buffers outside this state, and the two diagnostic
  messages change no state. The result is the stretcher together with, for a valid grain,
  the frame count of the chunk and the two mute counts that \<open>analyseGrain\<close> hands on to
  \<open>Grain::resampleInput\<close> and \<open>Input::applyAnalysisWindow\<close>, with which the samples are
  processed; an invalid grain is not processed.
\<close>

definition analyseGrain ::
  "(int \<Rightarrow> int) \<Rightarrow> int \<Rightarrow> Stretcher \<Rightarrow> bool \<Rightarrow> int \<Rightarrow> int
     \<Rightarrow> ((int \<times> int \<times> int) option \<times> Stretcher) option" where
  "analyseGrain binCount windowLog2 s data_is_null head tail =
     (case Call (instrumentation s) 1 of
        Abort _ \<Rightarrow> None
      | Return i \<Rightarrow>
          if length (grains s) < 2 then None
          else do {
            let grain = (grains s ! 0)
                  \<lparr>muteFrameCountHead := head, muteFrameCountTail := tail, validBinCount := 0\<rparr>;
            (mapped, grain') \<leftarrow>
              (if valid grain
               then do {
                 m \<leftarrow> inputChunkMap grain data_is_null head tail;
                 n \<leftarrow> chk (binCount (log2TransformLength grain) - 1);
                 c \<leftarrow> to_int (dceil (ddiv (of_int32 n) (ratio (output_op (resampleOperations grain)))));
                 v \<leftarrow> chk (min c n + 1);
                 Some (Some m, grain\<lparr>validBinCount := v, log2TransformLength := windowLog2\<rparr>)
               }
               else Some (None, grain));
            Some (mapped, s\<lparr>instrumentation := i, grains := (grains s)[0 := grain']\<rparr>)
          })"

text \<open>
  Modelled from the spec: \<open>Synthesis::synthesise\<close>, which fills the rotation of grain 0;
  Synthesis.h is not among the sources. The spec says that passthrough skips phase
  rotation entirely and forwards the analysis spectrum with no phase rotation, so the
  rotation of every valid bin of a passthrough grain is zero; for every other grain the
  rotation is that of the horizontal phase propagation, the parameter \<open>propagate\<close>. A phase
  is a 16-bit fraction of a turn, held as an integer.
\<close>

definition synthesise :: "(Grain \<Rightarrow> Grain \<Rightarrow> int list) \<Rightarrow> Grain \<Rightarrow> Grain \<Rightarrow> int list" where
  "synthesise propagate grain previous =
     (if passthrough grain \<noteq> 0 then replicate (nat (validBinCount grain)) 0
      else propagate grain previous)"

text \<open>
  The factor \<open>exp(i * pi / 0x8000 * rotation)\<close> by which \<open>Stretcher::synthesiseGrain\<close>
  multiplies a bin of the spectrum.
\<close>

definition phasor :: "int \<Rightarrow> complex" where
  "phasor rotation = exp (of_int rotation * (\<i> * of_real (pi / 32768)))"

text \<open>
  \<open>Stretcher::synthesiseGrain\<close> on this state: the guard; for a valid grain 0 the
  rotation of its valid bins and the factors applied to them. The inverse transform, the
  synthesis window and the output resampler work on buffers outside this state; the ring
  must hold the grains 1, 2 and 3 that they read. The result is the list of factors applied
  to the valid bins (empty for an invalid grain) and the stretcher.
\<close>

definition synthesiseGrain ::
  "(Grain \<Rightarrow> Grain \<Rightarrow> int list) \<Rightarrow> Stretcher \<Rightarrow> (complex list \<times> Stretcher) option" where
  "synthesiseGrain propagate s =
     (case Call (instrumentation s) 2 of
        Abort _ \<Rightarrow> None
      | Return i \<Rightarrow>
          if length (grains s) < 4 then None
          else
            let grain = grains s ! 0;
                t = (if valid grain
                     then map phasor (take (nat (validBinCount grain))
                                       (synthesise propagate grain (grains s ! 1)))
                     else [])
            in Some (t, s\<lparr>instrumentation := i\<rparr>))"

text \<open>
  One grain through the three functions, and a sequence of grains. \<open>Feed\<close> holds what the
  caller passes for one grain: the request and buffer start position of \<open>specifyGrain\<close> and
  the arguments of \<open>analyseGrain\<close>.
\<close>

record Feed =
  feed_request :: Request
  feed_bufferStartPosition :: double
  feed_data_is_null :: bool
  feed_muteHead :: int
  feed_muteTail :: int
  feed_windowLog2 :: int

definition processGrain ::
  "(int \<Rightarrow> int) \<Rightarrow> (Grain \<Rightarrow> Grain \<Rightarrow> int list) \<Rightarrow> Stretcher \<Rightarrow> Feed \<Rightarrow> Stretcher option" where
  "processGrain binCount propagate s f = do {
     (chunk, s1) \<leftarrow> specifyGrain s (feed_request f) (feed_bufferStartPosition f);
     (mapped, s2) \<leftarrow> analyseGrain binCount (feed_windowLog2 f) s1 (feed_data_is_null f)
             (feed_muteHead f) (feed_muteTail f);
     (t, s3) \<leftarrow> synthesiseGrain propagate s2;
     Some s3
   }"

fun processGrains ::
  "(int \<Rightarrow> int) \<Rightarrow> (Grain \<Rightarrow> Grain \<Rightarrow> int list) \<Rightarrow> Stretcher \<Rightarrow> Feed list \<Rightarrow> Stretcher option" where
  "processGrains binCount propagate s [] = Some s"
| "processGrains binCount propagate s (f # fs) =
     (case processGrain binCount propagate s f of
        None \<Rightarrow> None
      | Some s' \<Rightarrow> processGrains binCount propagate s' fs)"

section \<open>The resampling loop\<close>

text \<open>
  Resample.h. The internal and the external buffer are column-major arrays of samples;
  each is the flat list of its storage, read and written at \<open>index + channel * stride\<close> as
  the source does through \<open>data()\<close> and \<open>colStride()\<close>. An access outside the storage has
  no defined result. The members \<open>unmutedBegin\<close>, \<open>unmutedEnd\<close> and \<open>activeFrameCount\<close>
  of \<open>External\<close> are natural numbers: \<open>Resample::resample\<close> clamps the first two into
  \<open>[0, activeFrameCount]\<close> and calls the loop only for a positive \<open>activeFrameCount\<close>.
  \<open>BUNGEE_ASSERT1\<close> and \<open>BUNGEE_ASSERT2\<close> are compiled out at the default self-test
  level 0.
\<close>

datatype Mode = Input | Output

datatype Interpolation = Nearest | Bilinear

record Internal =
  array :: "double list"
  array_colStride :: int
  internal_frameCount :: int
  offset :: double

record External =
  ref :: "double list"
  ref_cols :: nat
  ref_colStride :: int
  unmutedBegin :: nat
  unmutedEnd :: nat
  activeFrameCount :: nat

definition load :: "double list \<Rightarrow> int \<Rightarrow> double option" where
  "load m a = (if 0 \<le> a \<and> a < int (length m) then Some (m ! nat a) else None)"

definition store :: "double list \<Rightarrow> int \<Rightarrow> double \<Rightarrow> double list" where
  "store m a v = m[nat a := v]"

text \<open>
  \<open>filterTap<Mode, first>\<close> on the two samples it is given by reference; the result is the
  pair of samples on return.
\<close>

definition filterTap :: "Mode \<Rightarrow> bool \<Rightarrow> double \<Rightarrow> double \<Rightarrow> double \<Rightarrow> double \<Rightarrow> double \<times> double" where
  "filterTap mode first internal external coefficient gain =
     (if mode = Input then (dadd internal (dmul external (dmul coefficient gain)), external)
      else if first then (internal, dmul internal coefficient)
      else (internal, dadd external (dmul internal coefficient)))"

text \<open>
  One call \<open>filterTap(internal[ia], external[ea], ...)\<close> on the two buffers. The buffers
  do not overlap (\<open>__restrict\<close>).
\<close>

definition tap ::
  "Mode \<Rightarrow> bool \<Rightarrow> int \<Rightarrow> int \<Rightarrow> double \<Rightarrow> double \<Rightarrow> double list \<times> double list
     \<Rightarrow> (double list \<times> double list) option" where
  "tap mode first ia ea coefficient gain m = do {
     i \<leftarrow> load (fst m) ia;
     e \<leftarrow> load (snd m) ea;
     let (i', e') = filterTap mode first i e coefficient gain;
     Some (store (fst m) ia i', store (snd m) ea e')
   }"

text \<open>A \<open>for\<close> loop over the given indices whose body may have no defined result.\<close>

fun for_each :: "('i \<Rightarrow> 's \<Rightarrow> 's option) \<Rightarrow> 'i list \<Rightarrow> 's \<Rightarrow> 's option" where
  "for_each body [] s = Some s"
| "for_each body (i # is) s = (case body i s of None \<Rightarrow> None | Some s' \<Rightarrow> for_each body is s')"

text \<open>The conversion of a floating-point value to the 64-bit \<open>intptr_t\<close>.\<close>

fun to_intptr :: "double \<Rightarrow> int option" where
  "to_intptr (Fin x) =
     (if - (2 ^ 63) \<le> ctrunc x \<and> ctrunc x < 2 ^ 63 then Some (ctrunc x) else None)"
| "to_intptr _ = None"

text \<open>
  \<open>Nearest::step\<close> and \<open>Bilinear::step\<close>. \<open>row\<close> is the offset that the caller has added
  to the data pointer of the external buffer.
\<close>

definition Nearest_step ::
  "Mode \<Rightarrow> double \<Rightarrow> nat \<Rightarrow> int \<Rightarrow> int \<Rightarrow> int \<Rightarrow> double \<Rightarrow> double list \<times> double list
     \<Rightarrow> (double list \<times> double list) option" where
  "Nearest_step mode x channelCount internalStride row externalStride gain m = do {
     integer \<leftarrow> to_intptr (dadd x (Fin (1 / 2)));
     for_each (\<lambda>c. tap mode True (integer + int c * internalStride)
                       (row + int c * externalStride) (Fin 1) gain)
       [0 ..< channelCount] m
   }"

definition Bilinear_step ::
  "Mode \<Rightarrow> double \<Rightarrow> nat \<Rightarrow> int \<Rightarrow> int \<Rightarrow> int \<Rightarrow> double \<Rightarrow> double list \<times> double list
     \<Rightarrow> (double list \<times> double list) option" where
  "Bilinear_step mode x channelCount internalStride row externalStride gain m = do {
     integer \<leftarrow> to_intptr x;
     let fraction = dsub x (of_int32 integer);
     for_each (\<lambda>c m. do {
                 m' \<leftarrow> tap mode True (integer + 1 + int c * internalStride)
                         (row + int c * externalStride) fraction gain m;
                 tap mode False (integer + 0 + int c * internalStride)
                   (row + int c * externalStride) (dsub (Fin 1) fraction) gain m'
               })
       [0 ..< channelCount] m
   }"

definition step ::
  "Interpolation \<Rightarrow> Mode \<Rightarrow> double \<Rightarrow> nat \<Rightarrow> int \<Rightarrow> int \<Rightarrow> int \<Rightarrow> double
     \<Rightarrow> double list \<times> double list \<Rightarrow> (double list \<times> double list) option" where
  "step interpolation =
     (case interpolation of Nearest \<Rightarrow> Nearest_step | Bilinear \<Rightarrow> Bilinear_step)"

text \<open>
  \<open>RatioState<ratioIsConstant>\<close>; its members \<open>ratio\<close> and \<open>x\<close> are \<open>state_ratio\<close> and
  \<open>state_x\<close> here.
\<close>

record RatioState =
  ratioGradient :: double
  state_ratio :: double
  state_x :: double

definition RatioState_init :: "bool \<Rightarrow> double \<Rightarrow> double \<Rightarrow> double \<Rightarrow> RatioState" where
  "RatioState_init ratioIsConstant offs ratioBegin gradient =
     (if ratioIsConstant
      then \<lparr>ratioGradient = gradient, state_ratio = ratioBegin, state_x = offs\<rparr>
      else \<lparr>ratioGradient = gradient,
            state_ratio = dadd ratioBegin (dmul (Fin (1 / 2)) gradient), state_x = offs\<rparr>)"

definition RatioState_step :: "bool \<Rightarrow> RatioState \<Rightarrow> RatioState" where
  "RatioState_step ratioIsConstant rs =
     (if ratioIsConstant
      then rs\<lparr>state_x := dadd (state_x rs) (state_ratio rs)\<rparr>
      else rs\<lparr>state_x := dadd (state_x rs) (state_ratio rs),
              state_ratio := dadd (state_ratio rs) (ratioGradient rs)\<rparr>)"

text \<open>
  The body of the loop of \<open>Loop::run\<close> for one row, on the ratio state and the two
  buffers, and \<open>Loop::run\<close>: in input mode the internal array is set to zero first, then
  the rows \<open>0 ..< activeFrameCount\<close> are visited in order.
\<close>

definition run_row ::
  "Interpolation \<Rightarrow> Mode \<Rightarrow> bool \<Rightarrow> int \<Rightarrow> nat \<Rightarrow> int \<Rightarrow> nat \<Rightarrow> nat \<Rightarrow> nat
     \<Rightarrow> RatioState \<times> double list \<times> double list
     \<Rightarrow> (RatioState \<times> double list \<times> double list) option" where
  "run_row interpolation mode ratioIsConstant internalStride channelCount externalStride
      unmutedB unmutedE row s = do {
     m \<leftarrow> (if unmutedB \<le> row \<and> row < unmutedE
           then step interpolation mode (state_x (fst s)) channelCount internalStride (int row)
                  externalStride (state_ratio (fst s)) (snd s)
           else Some (snd s));
     Some (RatioState_step ratioIsConstant (fst s), m)
   }"

definition run ::
  "Interpolation \<Rightarrow> Mode \<Rightarrow> bool \<Rightarrow> RatioState \<Rightarrow> Internal \<Rightarrow> External
     \<Rightarrow> (RatioState \<times> Internal \<times> External) option" where
  "run interpolation mode ratioIsConstant ratioState internal external = do {
     let zeroed = (if mode = Input then map (\<lambda>_. Fin 0) (array internal) else array internal);
     (rs, i, e) \<leftarrow>
       for_each (run_row interpolation mode ratioIsConstant (array_colStride internal)
                   (ref_cols external) (ref_colStride external)
                   (unmutedBegin external) (unmutedEnd external))
         [0 ..< activeFrameCount external] (ratioState, zeroed, ref external);
     Some (rs, internal\<lparr>array := i\<rparr>, external\<lparr>ref := e\<rparr>)
   }"

text \<open>
  The cells of the external storage that belong to the rows inside
  \<open>[unmutedBegin, unmutedEnd)\<close> among the active rows.
\<close>

definition unmuted_cells :: "External \<Rightarrow> int list" where
  "unmuted_cells external =
     concat (map (\<lambda>row. map (\<lambda>c. int row + int c * ref_colStride external)
                          [0 ..< ref_cols external])
               (filter (\<lambda>row. unmutedBegin external \<le> row \<and> row < unmutedEnd external)
                  [0 ..< activeFrameCount external]))"

section \<open>Example inputs\<close>

text \<open>
  Concrete inputs for the examples below: equal sample rates of 48 kHz, a synthesis hop of
  \<open>2 ^ 8\<close> frames, requests at unit pitch, a grain as the constructor leaves it, and a
  grain that was specified at position 1000 and has a position error of a quarter frame.
\<close>

definition rates48 :: SampleRates where
  "rates48 = \<lparr>input_rate = 48000, output_rate = 48000\<rparr>"

definition request_at :: "double \<Rightarrow> double \<Rightarrow> Request" where
  "request_at p s =
     \<lparr>position = p, speed = s, pitch = Fin 1, reset = False, resampleMode = resampleMode_autoOut\<rparr>"

definition fresh_grain :: Grain where
  "fresh_grain = Grain_init 8 (request_at (Fin 0) (Fin 0))"

definition grain_at_1000 :: Grain where
  "grain_at_1000 = fresh_grain
     \<lparr>request := request_at (Fin 1000) (Fin 1),
      analysis := \<lparr>positionError = Fin (1 / 4), hopIdeal = Fin 256, analysis_speed = Fin 1,
                    hop = 256\<rparr>\<rparr>"

text \<open>
  A stretcher as constructed, the arguments of a valid grain at position 1000.25 and of a
  flushing grain (a not-a-number position, at speed 1), the stretcher after \<open>specifyGrain\<close>
  for the valid grain, a bin count of
  \<open>2 ^ (log2TransformLength - 1) + 1\<close>, and a phase propagation that yields no rotation
  values.
\<close>

definition fresh_stretcher :: Stretcher where
  "fresh_stretcher = Stretcher_init rates48 8 (\<lambda>k. request_at (Fin 0) (Fin 0))"

definition feed_valid :: Feed where
  "feed_valid =
     \<lparr>feed_request = request_at (Fin (4001 / 4)) (Fin 1), feed_bufferStartPosition = Fin 0,
      feed_data_is_null = False, feed_muteHead = 0, feed_muteTail = 0, feed_windowLog2 = 11\<rparr>"

definition feed_flush :: Feed where
  "feed_flush = feed_valid\<lparr>feed_request := request_at NaN (Fin 1)\<rparr>"

definition specified_stretcher :: Stretcher where
  "specified_stretcher =
     snd (the (specifyGrain fresh_stretcher (feed_request feed_valid)
                 (feed_bufferStartPosition feed_valid)))"

definition example_binCount :: "int \<Rightarrow> int" where
  "example_binCount n = 2 ^ nat (n - 1) + 1"

definition example_propagate :: "Grain \<Rightarrow> Grain \<Rightarrow> int list" where
  "example_propagate grain previous = []"

text \<open>
  The bound on the position error: the error is finite and at most half a frame in
  absolute value.
\<close>

definition error_bounded :: "Grain \<Rightarrow> bool" where
  "error_bounded grain =
     (case positionError (analysis grain) of Fin e \<Rightarrow> \<bar>e\<bar> \<le> 1 / 2 | _ \<Rightarrow> False)"

text \<open>
  A resampling example: one channel, an internal array of three samples, an external
  buffer of two rows of which row 0 is muted and row 1 is not, and a constant ratio 1
  starting at position 0.
\<close>

definition example_internal :: Internal where
  "example_internal =
     \<lparr>array = [Fin 1, Fin 2, Fin 3], array_colStride = 3, internal_frameCount = 2, offset = Fin 0\<rparr>"

definition example_external :: External where
  "example_external =
     \<lparr>ref = [Fin 5, Fin 6], ref_cols = 1, ref_colStride = 2,
      unmutedBegin = 1, unmutedEnd = 2, activeFrameCount = 2\<rparr>"

definition example_ratioState :: RatioState where
  "example_ratioState = RatioState_init True (Fin 0) (Fin 1) (Fin 0)"


section \<open>The call-order guard\<close>

lemma calls_append:
  "calls i (xs @ ys) = (case calls i xs of Abort ms \<Rightarrow> Abort ms | Return i' \<Rightarrow> calls i' ys)"
  by (induction xs arbitrary: i) (auto split: outcome.splits)

lemma sequence_of_cycle_at_Suc:
  "(sequence_of (cycle_at n) + 1) mod 3 = sequence_of (cycle_at (Suc n))"
  unfolding cycle_at_def by (auto simp: mod_Suc)

lemma sequence_of_inj: "sequence_of f = sequence_of g \<longleftrightarrow> f = g"
  by (cases f; cases g) auto

text \<open>Calls that follow the cycle from its \<open>n\<close>-th position all pass the guard.\<close>

lemma calls_cycle:
  "expected i = sequence_of (cycle_at n) \<Longrightarrow>
   calls i (map cycle_at [n ..< n + m]) = Return (i\<lparr>expected := sequence_of (cycle_at (n + m))\<rparr>)"
proof (induction m arbitrary: i n)
  case 0
  then show ?case by simp
next
  case (Suc m)
  have "[n ..< n + Suc m] = n # [Suc n ..< Suc n + m]"
    by (simp add: upt_rec)
  then show ?case
    using Suc.prems Suc.IH[of "i\<lparr>expected := sequence_of (cycle_at (Suc n))\<rparr>" "Suc n"]
    by (simp add: Call_def sequence_of_cycle_at_Suc)
qed

text \<open>A call other than the expected one aborts, whatever follows it.\<close>

lemma calls_deviation:
  "expected i = sequence_of (cycle_at n) \<Longrightarrow> f \<noteq> cycle_at n \<Longrightarrow>
   calls i (f # rest) = Abort (log_sink i (fatal_message (sequence_of f) (sequence_of (cycle_at n))))"
  by (simp add: Call_def sequence_of_inj)

text \<open>
  Claim C4, as amended. On an instance that expects \<open>specifyGrain\<close>, a sequence of calls
  that follows the cycle specifyGrain, analyseGrain, synthesiseGrain, specifyGrain, ...
  never aborts, and leaves the guard expecting the next function of the cycle. The first
  call that leaves the cycle aborts the process; the fatal message naming the function
  called and the function expected is written only when instrumentation is enabled, and
  nothing is written otherwise.
\<close>

theorem call_order_guard:
  "expected i = 0 \<longrightarrow>
     (in_cycle fs \<longrightarrow>
        calls i fs = Return (i\<lparr>expected := sequence_of (cycle_at (length fs))\<rparr>)) \<and>
     (in_cycle pre \<and> f \<noteq> cycle_at (length pre) \<longrightarrow>
        calls i (pre @ f # rest) =
          Abort (if enabled i
                 then [fatal_message (sequence_of f) (sequence_of (cycle_at (length pre)))]
                 else []))"
proof (intro impI conjI)
  assume e: "expected i = 0"
  then have e0: "expected i = sequence_of (cycle_at 0)"
    by (simp add: cycle_at_def)
  { assume "in_cycle fs"
    then have fs: "fs = map cycle_at [0 ..< 0 + length fs]"
      by (simp add: in_cycle_def)
    show "calls i fs = Return (i\<lparr>expected := sequence_of (cycle_at (length fs))\<rparr>)"
      using calls_cycle[OF e0, of "length fs"] fs by simp }
  { assume a: "in_cycle pre \<and> f \<noteq> cycle_at (length pre)"
    then have pre: "pre = map cycle_at [0 ..< 0 + length pre]"
      by (simp add: in_cycle_def)
    have 1: "calls i pre = Return (i\<lparr>expected := sequence_of (cycle_at (length pre))\<rparr>)"
      using calls_cycle[OF e0, of "length pre"] pre by simp
    show "calls i (pre @ f # rest) =
          Abort (if enabled i
                 then [fatal_message (sequence_of f) (sequence_of (cycle_at (length pre)))]
                 else [])"
      using a calls_deviation[of "i\<lparr>expected := sequence_of (cycle_at (length pre))\<rparr>" "length pre" f rest]
      by (simp add: calls_append 1 log_sink_def) }
qed

theorem call_order_guard_witness:
  "expected Instrumentation_init = 0 \<and>
   in_cycle [SpecifyGrain, AnalyseGrain, SynthesiseGrain, SpecifyGrain] \<and>
   calls Instrumentation_init [SpecifyGrain, AnalyseGrain, SynthesiseGrain, SpecifyGrain]
     = Return (Instrumentation_init\<lparr>expected := 1\<rparr>) \<and>
   in_cycle [SpecifyGrain] \<and> SynthesiseGrain \<noteq> cycle_at (length [SpecifyGrain]) \<and>
   calls (enableInstrumentation Instrumentation_init True) ([SpecifyGrain] @ SynthesiseGrain # [AnalyseGrain])
     = Abort [''FATAL: stretcher functions called in the wrong order: synthesiseGrain was called when expecting a call to analyseGrain'']"
  using call_order_guard[of Instrumentation_init "[SpecifyGrain, AnalyseGrain, SynthesiseGrain, SpecifyGrain]" "[]" SpecifyGrain "[]"]
    call_order_guard[of "enableInstrumentation Instrumentation_init True" "[]" "[SpecifyGrain]" SynthesiseGrain "[AnalyseGrain]"]
  by (simp add: Instrumentation_init_def enableInstrumentation_def in_cycle_def cycle_at_def upt_rec fatal_message_def names_def)

text \<open>
  The claim as stated fails on a freshly constructed instance, whose instrumentation is
  disabled: \<open>analyseGrain\<close> called first aborts the process and no fatal message is written.
\<close>

theorem call_order_silent_abort:
  "Call Instrumentation_init (sequence_of AnalyseGrain) = Abort []"
  by (simp add: Call_def Instrumentation_init_def log_sink_def)

section \<open>Resampler selection: properties\<close>

text \<open>
  Claim C2, as amended. With \<open>r = pitch * sampleRates.input / sampleRates.output\<close>,
  \<open>Operations::setup\<close> engages, for \<open>forceIn\<close>, the input resampler only, with ratio
  \<open>1/r\<close>, and leaves the output a pass-through of ratio 1; for \<open>forceOut\<close>, the output
  resampler only, with ratio \<open>r\<close>; for \<open>autoInOut\<close>, the input side as \<open>forceIn\<close> does when
  \<open>r > 1\<close> and the output side as \<open>forceOut\<close> does when \<open>r < 1\<close>. When \<open>r == 1\<close> neither
  resampler is engaged in the three automatic modes; the two forcing modes engage their
  side also then.
\<close>

theorem setup_selection:
  "(let r = resampleRatio rates p;
        operations = snd (Operations_setup rates p mode);
        input_only = \<lparr>input_op = \<lparr>func = Some resample_Bilinear_Input, ratio = ddiv (Fin 1) r\<rparr>,
                      output_op = \<lparr>func = None, ratio = Fin 1\<rparr>\<rparr>;
        output_only = \<lparr>input_op = \<lparr>func = None, ratio = Fin 1\<rparr>,
                       output_op = \<lparr>func = Some resample_Bilinear_Output, ratio = r\<rparr>\<rparr>;
        neither = \<lparr>input_op = \<lparr>func = None, ratio = Fin 1\<rparr>,
                   output_op = \<lparr>func = None, ratio = Fin 1\<rparr>\<rparr>
    in (mode = resampleMode_forceIn \<longrightarrow> operations = input_only) \<and>
       (mode = resampleMode_forceOut \<longrightarrow> operations = output_only) \<and>
       (mode = resampleMode_autoInOut \<and> dless (Fin 1) r \<longrightarrow> operations = input_only) \<and>
       (mode = resampleMode_autoInOut \<and> dless r (Fin 1) \<longrightarrow> operations = output_only) \<and>
       (deq r (Fin 1) \<and> mode \<noteq> resampleMode_forceIn \<and> mode \<noteq> resampleMode_forceOut \<longrightarrow>
          operations = neither))"
  by (cases mode; cases "resampleRatio rates p")
     (auto simp: Operations_setup_def select_functions_def Let_def)

theorem setup_selection_witness:
  "snd (Operations_setup rates48 (Fin 2) resampleMode_forceIn)
     = \<lparr>input_op = \<lparr>func = Some resample_Bilinear_Input, ratio = Fin (1 / 2)\<rparr>,
        output_op = \<lparr>func = None, ratio = Fin 1\<rparr>\<rparr> \<and>
   snd (Operations_setup rates48 (Fin 2) resampleMode_forceOut)
     = \<lparr>input_op = \<lparr>func = None, ratio = Fin 1\<rparr>,
        output_op = \<lparr>func = Some resample_Bilinear_Output, ratio = Fin 2\<rparr>\<rparr> \<and>
   dless (Fin 1) (resampleRatio rates48 (Fin 2)) \<and>
   snd (Operations_setup rates48 (Fin 2) resampleMode_autoInOut)
     = \<lparr>input_op = \<lparr>func = Some resample_Bilinear_Input, ratio = Fin (1 / 2)\<rparr>,
        output_op = \<lparr>func = None, ratio = Fin 1\<rparr>\<rparr> \<and>
   dless (resampleRatio rates48 (Fin (1 / 2))) (Fin 1) \<and>
   snd (Operations_setup rates48 (Fin (1 / 2)) resampleMode_autoInOut)
     = \<lparr>input_op = \<lparr>func = None, ratio = Fin 1\<rparr>,
        output_op = \<lparr>func = Some resample_Bilinear_Output, ratio = Fin (1 / 2)\<rparr>\<rparr> \<and>
   deq (resampleRatio rates48 (Fin 1)) (Fin 1) \<and>
   snd (Operations_setup rates48 (Fin 1) resampleMode_autoIn)
     = \<lparr>input_op = \<lparr>func = None, ratio = Fin 1\<rparr>, output_op = \<lparr>func = None, ratio = Fin 1\<rparr>\<rparr>"
  using setup_selection[of rates48 "Fin 2" resampleMode_forceIn]
    setup_selection[of rates48 "Fin 2" resampleMode_forceOut]
    setup_selection[of rates48 "Fin 2" resampleMode_autoInOut]
    setup_selection[of rates48 "Fin (1 / 2)" resampleMode_autoInOut]
    setup_selection[of rates48 "Fin 1" resampleMode_autoIn]
  by (simp add: resampleRatio_def of_int32_def rates48_def Let_def)

text \<open>
  The claim as stated fails for the forcing modes: at equal sample rates and the strictly
  positive pitch 1 the ratio is 1, and \<open>forceOut\<close> still engages the output resampler and
  \<open>forceIn\<close> the input resampler.
\<close>

theorem setup_force_engages_at_unity:
  "dless (Fin 0) (Fin 1) \<and>
   deq (resampleRatio rates48 (Fin 1)) (Fin 1) \<and>
   func (output_op (snd (Operations_setup rates48 (Fin 1) resampleMode_forceOut)))
     = Some resample_Bilinear_Output \<and>
   func (input_op (snd (Operations_setup rates48 (Fin 1) resampleMode_forceIn)))
     = Some resample_Bilinear_Input"
  by (simp add: Operations_setup_def select_functions_def resampleRatio_def rateRatio_def
        of_int32_def rates48_def Let_def)

section \<open>Rounding and conversions\<close>

lemma cround_bound: "\<bar>x - of_int (cround x)\<bar> \<le> 1 / 2"
proof (cases "0 \<le> x")
  case True
  have "of_int \<lfloor>x + 1 / 2\<rfloor> \<le> x + 1 / 2" "x + 1 / 2 < of_int \<lfloor>x + 1 / 2\<rfloor> + 1"
    by linarith+
  then have "\<bar>x - of_int \<lfloor>x + 1 / 2\<rfloor>\<bar> \<le> 1 / 2"
    by linarith
  with True show ?thesis
    by (simp only: cround_def if_True)
next
  case False
  have "x - 1 / 2 \<le> of_int \<lceil>x - 1 / 2\<rceil>" "of_int \<lceil>x - 1 / 2\<rceil> < x - 1 / 2 + 1"
    by linarith+
  then have "\<bar>x - of_int \<lceil>x - 1 / 2\<rceil>\<bar> \<le> 1 / 2"
    by linarith
  with False show ?thesis
    by (simp only: cround_def if_False)
qed

lemma ctrunc_of_int: "ctrunc (of_int i) = i"
  by (simp add: ctrunc_def)

lemma to_int_unit: "chk (ctrunc 1) = Some 1" "chk (ctrunc (- 1)) = Some (- 1)"
  using ctrunc_of_int[of 1] ctrunc_of_int[of "- 1"]
  by (simp_all add: chk_def INT_MIN_def INT_MAX_def)

text \<open>A rounded value that converts to \<open>int\<close> was finite, and the \<open>int\<close> is its rounding.\<close>

lemma to_int_dround:
  "to_int (dround d) = Some h \<Longrightarrow> \<exists>x. d = Fin x \<and> h = cround x \<and> dround d = of_int32 h"
  by (cases d) (auto simp: chk_def of_int32_def ctrunc_of_int split: if_splits)

lemma isnan_iff: "isnan d \<longleftrightarrow> d = NaN"
  by (cases d) auto

lemma dneg_dsub: "dneg (dsub a b) = dsub b a"
  by (cases a; cases b) (auto simp: dsub_def)

lemma dsub_Fin_left: "dsub a b = Fin z \<Longrightarrow> \<exists>x. a = Fin x"
  by (cases a; cases b) (auto simp: dsub_def)

lemma isnan_difference:
  "p = NaN \<or> (\<exists>x. p = Fin x) \<Longrightarrow> isnan (dsub p q) \<longleftrightarrow> isnan p \<or> isnan q"
  by (cases q) (auto simp: dsub_def)

section \<open>Grain::specify: properties\<close>

text \<open>What a call of \<open>specify\<close> with a defined result has computed, block by block.\<close>

lemma specify_fields:
  assumes "specify grain r previous rates l b = Some (chunk, grain')"
  shows "request grain' = r"
    and "resampleOperations grain' = snd (Operations_setup rates (pitch r) (resampleMode r))"
    and "\<exists>one. shl1 l = Some one \<and>
          specify_hop (dmul (of_int32 one) (fst (Operations_setup rates (pitch r) (resampleMode r))))
             (ratio (input_op (snd (Operations_setup rates (pitch r) (resampleMode r))))) r previous
           = Some (requestHop grain', hopIdeal (analysis grain'), grain_continuous grain',
                   positionError (analysis grain'), hop (analysis grain')) \<and>
          analysis_speed (analysis grain') = ddiv (hopIdeal (analysis grain')) (of_int32 one)"
    and "specify_passthrough (analysis_speed (analysis grain')) (grain_continuous grain') previous
           = Some (passthrough grain')"
    and "\<exists>lt frameCount half.
           chk (l + 3) = Some lt \<and> shl1 lt = Some frameCount \<and>
           log2TransformLength grain' = lt \<and> inputResampled_frameCount grain' = frameCount \<and>
           specify_half frameCount (ratio (input_op (resampleOperations grain'))) = Some half \<and>
           specify_chunk half (position r) b = Some (chunk, inputChunk grain')"
  using assms unfolding specify_def
  by (auto simp: Let_def bind_eq_Some_conv split_def)

text \<open>
  The position of a request whose chunk is defined is a not-a-number or finite: the
  offset of the chunk is the position converted to \<open>int\<close>.
\<close>

lemma specify_chunk_position:
  "specify_chunk half pos b = Some cs \<Longrightarrow> pos = NaN \<or> (\<exists>x. pos = Fin x)"
  unfolding specify_chunk_def
  by (auto simp: bind_eq_Some_conv isnan_iff split: if_splits dest!: to_int_dround dsub_Fin_left)

lemma specify_position:
  assumes "specify grain r previous rates l b = Some (chunk, grain')"
  shows "position r = NaN \<or> (\<exists>x. position r = Fin x)"
  using specify_fields(5)[OF assms] specify_chunk_position by blast

lemma specify_hop_result:
  assumes "specify_hop unitHop inputRatio r previous = Some (rh, ideal, c, e, h)"
    and "position r = NaN \<or> (\<exists>x. position r = Fin x)"
  shows "rh = (if isnan (position r) \<or> isnan (position (request previous)) \<or> reset r
               then dmul (speed r) unitHop
               else dsub (position r) (position (request previous)))"
    and "ideal = dmul rh inputRatio"
    and "c = (\<not> reset r \<and> \<not> isnan (position (request previous)))"
    and "c \<Longrightarrow> of_int32 h = dround (dsub ideal (positionError (analysis previous))) \<and>
               e = dadd (dsub (positionError (analysis previous)) ideal) (of_int32 h)"
    and "\<not> c \<Longrightarrow> of_int32 h = dround ideal \<and> e = dsub (dround (position r)) (position r)"
  using assms isnan_difference[OF assms(2), of "position (request previous)"]
  unfolding specify_hop_def
  by (auto simp: Let_def bind_eq_Some_conv dneg_dsub split: if_splits dest!: to_int_dround)

lemma specify_half_result:
  "specify_half frameCount inputRatio = Some half \<Longrightarrow>
   (if deq inputRatio (Fin 1) then half = frameCount div 2
    else of_int32 (half - 1) = dround (ddiv (of_int32 (frameCount div 2)) inputRatio))"
  unfolding specify_half_def
  by (auto simp: bind_eq_Some_conv dne_def chk_def split: if_splits dest!: to_int_dround)

lemma specify_chunk_result:
  "specify_chunk half pos b = Some (returned, stored) \<Longrightarrow>
   (if isnan pos then returned = \<lparr>chunk_begin = 0, chunk_end = 0\<rparr>
    else \<exists>centre. of_int32 centre = dround (dsub pos b) \<and>
           returned = \<lparr>chunk_begin = centre - half, chunk_end = centre + half\<rparr>)"
  unfolding specify_chunk_def
  by (auto simp: bind_eq_Some_conv chk_def split: if_splits dest!: to_int_dround)

lemma setup_input_ratio:
  "func (input_op (snd (Operations_setup rates p mode))) = None \<Longrightarrow>
   ratio (input_op (snd (Operations_setup rates p mode))) = Fin 1"
  by (auto simp: Operations_setup_def Let_def split_def split: if_splits)

text \<open>Three calls of \<open>specify\<close> evaluated.\<close>

lemmas specify_eval =
  specify_def Operations_setup_def select_functions_def resampleRatio_def rateRatio_def
  of_int32_def shl1_def specify_hop_def specify_passthrough_def specify_half_def specify_chunk_def
  Grain_init_def Operations_init_def dsub_def dne_def chk_def INT_MIN_def INT_MAX_def
  cround_def ctrunc_def Let_def rates48_def request_at_def fresh_grain_def grain_at_1000_def

lemma specify_example_continuous:
  "specify fresh_grain (request_at (Fin 1256) (Fin 1)) grain_at_1000 rates48 8 (Fin 0)
   = Some (\<lparr>chunk_begin = 232, chunk_end = 2280\<rparr>,
       fresh_grain
        \<lparr>request := request_at (Fin 1256) (Fin 1),
         requestHop := Fin 256,
         grain_continuous := True,
         analysis := \<lparr>positionError = Fin (1 / 4), hopIdeal = Fin 256, analysis_speed = Fin 1,
                       hop = 256\<rparr>,
         log2TransformLength := 11,
         inputResampled_frameCount := 2048,
         inputChunk := \<lparr>chunk_begin = 232, chunk_end = 2280\<rparr>\<rparr>)"
  by (simp add: specify_eval)

lemma specify_example_first:
  "specify fresh_grain (request_at (Fin (4001 / 4)) (Fin 1)) fresh_grain rates48 8 (Fin 0)
   = Some (\<lparr>chunk_begin = - 24, chunk_end = 2024\<rparr>,
       fresh_grain
        \<lparr>request := request_at (Fin (4001 / 4)) (Fin 1),
         requestHop := Fin 256,
         analysis := \<lparr>positionError = Fin (- (1 / 4)), hopIdeal = Fin 256, analysis_speed = Fin 1,
                       hop = 256\<rparr>,
         passthrough := 1,
         log2TransformLength := 11,
         inputResampled_frameCount := 2048,
         inputChunk := \<lparr>chunk_begin = - 24, chunk_end = 2024\<rparr>\<rparr>)"
  by (simp add: specify_eval)

lemma specify_example_pitch2:
  "specify fresh_grain
     ((request_at (Fin (4001 / 4)) (Fin 1))\<lparr>pitch := Fin 2, resampleMode := resampleMode_autoIn\<rparr>)
     fresh_grain rates48 8 (Fin 0)
   = Some (\<lparr>chunk_begin = - 1049, chunk_end = 3049\<rparr>,
       fresh_grain
        \<lparr>request := (request_at (Fin (4001 / 4)) (Fin 1))\<lparr>pitch := Fin 2, resampleMode := resampleMode_autoIn\<rparr>,
         resampleOperations :=
           \<lparr>input_op = \<lparr>func = Some resample_Bilinear_Input, ratio = Fin (1 / 2)\<rparr>,
            output_op = \<lparr>func = None, ratio = Fin 1\<rparr>\<rparr>,
         requestHop := Fin 256,
         analysis := \<lparr>positionError = Fin (- (1 / 4)), hopIdeal = Fin 128, analysis_speed = Fin (1 / 2),
                       hop = 128\<rparr>,
         log2TransformLength := 11,
         inputResampled_frameCount := 2048,
         inputChunk := \<lparr>chunk_begin = - 1049, chunk_end = 3049\<rparr>\<rparr>)"
  by (simp add: specify_eval)

text \<open>
  When \<open>specify\<close> has a result: the passthrough block always has one, the hop block
  has one when the conversion of the rounded hop to \<open>int\<close> has, and \<open>log2SynthesisHop + 3\<close>
  fits \<open>int\<close> when the first shift is defined.
\<close>

lemma specify_passthrough_defined: "specify_passthrough v c previous \<noteq> None"
proof (cases "deq (dabs v) (Fin 1)")
  case True
  then have "v = Fin 1 \<or> v = Fin (- 1)"
    by (cases v) (auto split: if_splits)
  then show ?thesis
    using True by (auto simp: specify_passthrough_def to_int_unit)
next
  case False
  then show ?thesis
    by (simp add: specify_passthrough_def)
qed

lemma specify_hop_defined:
  assumes pos: "position r = NaN \<or> (\<exists>x. position r = Fin x)"
    and rh: "rh = (if isnan (position r) \<or> isnan (position (request previous)) \<or> reset r
                   then dmul (speed r) unitHop
                   else dsub (position r) (position (request previous)))"
    and c: "c = (\<not> reset r \<and> \<not> isnan (position (request previous)))"
    and h: "to_int (dround (if c then dsub (dmul rh inputRatio) (positionError (analysis previous))
                            else dmul rh inputRatio)) = Some h"
  shows "specify_hop unitHop inputRatio r previous =
           Some (rh, dmul rh inputRatio, c,
                 (if c then dadd (dsub (positionError (analysis previous)) (dmul rh inputRatio)) (of_int32 h)
                  else dsub (dround (position r)) (position r)), h)"
  using h isnan_difference[OF pos, of "position (request previous)"]
  unfolding specify_hop_def rh c
  by (auto simp: Let_def dneg_dsub)

lemma shl1_chk3: "shl1 l = Some one \<Longrightarrow> chk (l + 3) = Some (l + 3)"
  by (auto simp: shl1_def chk_def INT_MIN_def INT_MAX_def split: if_splits)

lemma specify_defined:
  assumes one: "shl1 l = Some one"
    and fc: "shl1 (l + 3) = Some frameCount"
    and half: "specify_half frameCount
                 (ratio (input_op (snd (Operations_setup rates (pitch r) (resampleMode r))))) = Some half"
    and chunk: "specify_chunk half (position r) b = Some (chunk, stored)"
    and hop: "specify_hop (dmul (of_int32 one) (fst (Operations_setup rates (pitch r) (resampleMode r))))
                (ratio (input_op (snd (Operations_setup rates (pitch r) (resampleMode r))))) r previous
              = Some (rh, ideal, c, e, h)"
  shows "\<exists>grain'. specify grain r previous rates l b = Some (chunk, grain') \<and>
           requestHop grain' = rh \<and> hopIdeal (analysis grain') = ideal \<and>
           hop (analysis grain') = h \<and> positionError (analysis grain') = e"
proof -
  obtain p where p: "specify_passthrough (ddiv ideal (of_int32 one)) c previous = Some p"
    using specify_passthrough_defined by blast
  show ?thesis
    unfolding specify_def
    by (simp add: Let_def split_def one fc half chunk hop p shl1_chk3[OF one])
qed

text \<open>
  Claim C1. For every call of \<open>Grain::specify\<close>: \<open>requestHop\<close> is
  \<open>request.position - previous.request.position\<close>, and \<open>request.speed * unitHop\<close> when
  either position is a not-a-number or \<open>request.reset\<close> is set, where \<open>unitHop\<close> is
  \<open>1 << log2SynthesisHop\<close> times the ratio that \<open>setup\<close> returns; \<open>hopIdeal\<close> is
  \<open>requestHop\<close> times the input ratio; for a continuous grain (no reset, the previous
  position not a not-a-number) \<open>analysis.hop\<close> is \<open>round(hopIdeal - previous.positionError)\<close>
  and \<open>analysis.positionError\<close> is \<open>previous.positionError - hopIdeal + analysis.hop\<close>;
  otherwise \<open>analysis.hop\<close> is \<open>round(hopIdeal)\<close> and \<open>analysis.positionError\<close> is
  \<open>round(request.position) - request.position\<close>. The first part: every result of a call
  holds these values. The second part: the call has a result, which holds these values,
  whenever the two shifts \<open>1 << log2SynthesisHop\<close> and \<open>1 << (log2SynthesisHop + 3)\<close>, the
  half width, the chunk and the conversion to \<open>int\<close> of the rounded hop, each taken of the
  values above, are defined; this includes calls with \<open>request.reset\<close> set and calls with
  a not-a-number position.
\<close>

theorem specify_hop_and_error:
  "(specify grain r previous rates l b = Some (chunk, grain') \<longrightarrow>
     (\<exists>one. shl1 l = Some one \<and>
       (let unitHop = dmul (of_int32 one) (fst (Operations_setup rates (pitch r) (resampleMode r)));
            inputRatio = ratio (input_op (resampleOperations grain'));
            previousError = positionError (analysis previous);
            ideal = hopIdeal (analysis grain');
            h = hop (analysis grain')
        in requestHop grain' =
             (if isnan (position r) \<or> isnan (position (request previous)) \<or> reset r
              then dmul (speed r) unitHop
              else dsub (position r) (position (request previous))) \<and>
           ideal = dmul (requestHop grain') inputRatio \<and>
           (if \<not> reset r \<and> \<not> isnan (position (request previous))
            then of_int32 h = dround (dsub ideal previousError) \<and>
                 positionError (analysis grain') = dadd (dsub previousError ideal) (of_int32 h)
            else of_int32 h = dround ideal \<and>
                 positionError (analysis grain') = dsub (dround (position r)) (position r))))) \<and>
   (let unitHop = dmul (of_int32 one) (fst (Operations_setup rates (pitch r) (resampleMode r)));
        inputRatio = ratio (input_op (snd (Operations_setup rates (pitch r) (resampleMode r))));
        previousError = positionError (analysis previous);
        hopRequested =
          (if isnan (position r) \<or> isnan (position (request previous)) \<or> reset r
           then dmul (speed r) unitHop
           else dsub (position r) (position (request previous)));
        ideal = dmul hopRequested inputRatio;
        continuous = (\<not> reset r \<and> \<not> isnan (position (request previous)))
    in shl1 l = Some one \<and> shl1 (l + 3) = Some frameCount \<and>
       specify_half frameCount inputRatio = Some half \<and>
       specify_chunk half (position r) b = Some (returned, stored) \<and>
       to_int (dround (if continuous then dsub ideal previousError else ideal)) = Some h
       \<longrightarrow>
       (\<exists>g. specify grain r previous rates l b = Some (returned, g) \<and>
          requestHop g = hopRequested \<and>
          hopIdeal (analysis g) = ideal \<and>
          hop (analysis g) = h \<and>
          positionError (analysis g) =
            (if continuous then dadd (dsub previousError ideal) (of_int32 h)
             else dsub (dround (position r)) (position r))))"
proof (rule conjI)
  show "specify grain r previous rates l b = Some (chunk, grain') \<longrightarrow>
     (\<exists>one. shl1 l = Some one \<and>
       (let unitHop = dmul (of_int32 one) (fst (Operations_setup rates (pitch r) (resampleMode r)));
            inputRatio = ratio (input_op (resampleOperations grain'));
            previousError = positionError (analysis previous);
            ideal = hopIdeal (analysis grain');
            h = hop (analysis grain')
        in requestHop grain' =
             (if isnan (position r) \<or> isnan (position (request previous)) \<or> reset r
              then dmul (speed r) unitHop
              else dsub (position r) (position (request previous))) \<and>
           ideal = dmul (requestHop grain') inputRatio \<and>
           (if \<not> reset r \<and> \<not> isnan (position (request previous))
            then of_int32 h = dround (dsub ideal previousError) \<and>
                 positionError (analysis grain') = dadd (dsub previousError ideal) (of_int32 h)
            else of_int32 h = dround ideal \<and>
                 positionError (analysis grain') = dsub (dround (position r)) (position r))))"
  proof
    assume a: "specify grain r previous rates l b = Some (chunk, grain')"
    from specify_fields(3)[OF a] obtain one where one: "shl1 l = Some one"
      and hop: "specify_hop (dmul (of_int32 one) (fst (Operations_setup rates (pitch r) (resampleMode r))))
               (ratio (input_op (snd (Operations_setup rates (pitch r) (resampleMode r))))) r previous
             = Some (requestHop grain', hopIdeal (analysis grain'), grain_continuous grain',
                     positionError (analysis grain'), hop (analysis grain'))"
      by blast
    note ops = specify_fields(2)[OF a]
    note res = specify_hop_result[OF hop specify_position[OF a]]
    show "\<exists>one. shl1 l = Some one \<and>
       (let unitHop = dmul (of_int32 one) (fst (Operations_setup rates (pitch r) (resampleMode r)));
            inputRatio = ratio (input_op (resampleOperations grain'));
            previousError = positionError (analysis previous);
            ideal = hopIdeal (analysis grain');
            h = hop (analysis grain')
        in requestHop grain' =
             (if isnan (position r) \<or> isnan (position (request previous)) \<or> reset r
              then dmul (speed r) unitHop
              else dsub (position r) (position (request previous))) \<and>
           ideal = dmul (requestHop grain') inputRatio \<and>
           (if \<not> reset r \<and> \<not> isnan (position (request previous))
            then of_int32 h = dround (dsub ideal previousError) \<and>
                 positionError (analysis grain') = dadd (dsub previousError ideal) (of_int32 h)
            else of_int32 h = dround ideal \<and>
                 positionError (analysis grain') = dsub (dround (position r)) (position r)))"
      using one res(1) res(2) res(3) res(4) res(5)
      by (simp add: Let_def ops)
  qed
next
  define unitHop where
    "unitHop = dmul (of_int32 one) (fst (Operations_setup rates (pitch r) (resampleMode r)))"
  define inputRatio where
    "inputRatio = ratio (input_op (snd (Operations_setup rates (pitch r) (resampleMode r))))"
  define hopRequested where
    "hopRequested = (if isnan (position r) \<or> isnan (position (request previous)) \<or> reset r
           then dmul (speed r) unitHop
           else dsub (position r) (position (request previous)))"
  define continuous where "continuous = (\<not> reset r \<and> \<not> isnan (position (request previous)))"
  have "\<exists>g. specify grain r previous rates l b = Some (returned, g) \<and>
          requestHop g = hopRequested \<and>
          hopIdeal (analysis g) = dmul hopRequested inputRatio \<and>
          hop (analysis g) = h \<and>
          positionError (analysis g) =
            (if continuous
             then dadd (dsub (positionError (analysis previous)) (dmul hopRequested inputRatio)) (of_int32 h)
             else dsub (dround (position r)) (position r))"
    if one: "shl1 l = Some one" and fc: "shl1 (l + 3) = Some frameCount"
      and half: "specify_half frameCount inputRatio = Some half"
      and chunk: "specify_chunk half (position r) b = Some (returned, stored)"
      and h: "to_int (dround (if continuous
                 then dsub (dmul hopRequested inputRatio) (positionError (analysis previous))
                 else dmul hopRequested inputRatio)) = Some h"
  proof -
    note pos = specify_chunk_position[OF chunk]
    note hop = specify_hop_defined[OF pos hopRequested_def continuous_def h]
    show ?thesis
      using specify_defined[OF one fc half[unfolded inputRatio_def] chunk
            hop[unfolded inputRatio_def unitHop_def]]
      by (simp only: inputRatio_def)
  qed
  then show "let unitHop = dmul (of_int32 one) (fst (Operations_setup rates (pitch r) (resampleMode r)));
        inputRatio = ratio (input_op (snd (Operations_setup rates (pitch r) (resampleMode r))));
        previousError = positionError (analysis previous);
        hopRequested =
          (if isnan (position r) \<or> isnan (position (request previous)) \<or> reset r
           then dmul (speed r) unitHop
           else dsub (position r) (position (request previous)));
        ideal = dmul hopRequested inputRatio;
        continuous = (\<not> reset r \<and> \<not> isnan (position (request previous)))
    in shl1 l = Some one \<and> shl1 (l + 3) = Some frameCount \<and>
       specify_half frameCount inputRatio = Some half \<and>
       specify_chunk half (position r) b = Some (returned, stored) \<and>
       to_int (dround (if continuous then dsub ideal previousError else ideal)) = Some h
       \<longrightarrow>
       (\<exists>g. specify grain r previous rates l b = Some (returned, g) \<and>
          requestHop g = hopRequested \<and>
          hopIdeal (analysis g) = ideal \<and>
          hop (analysis g) = h \<and>
          positionError (analysis g) =
            (if continuous then dadd (dsub previousError ideal) (of_int32 h)
             else dsub (dround (position r)) (position r)))"
    unfolding Let_def unitHop_def inputRatio_def hopRequested_def continuous_def
    by blast
qed

theorem specify_hop_and_error_witness:
  "shl1 8 = Some 256 \<and> shl1 (8 + 3) = Some 2048 \<and> specify_half 2048 (Fin 1) = Some 1024 \<and>
   specify_chunk 1024 (Fin 1256) (Fin 0)
     = Some (\<lparr>chunk_begin = 232, chunk_end = 2280\<rparr>, \<lparr>chunk_begin = 232, chunk_end = 2280\<rparr>) \<and>
   to_int (dround (dsub (dmul (dsub (Fin 1256) (Fin 1000)) (Fin 1)) (Fin (1 / 4)))) = Some 256 \<and>
   (\<exists>g. specify fresh_grain (request_at (Fin 1256) (Fin 1)) grain_at_1000 rates48 8 (Fin 0)
           = Some (\<lparr>chunk_begin = 232, chunk_end = 2280\<rparr>, g) \<and>
         requestHop g = Fin 256 \<and> hopIdeal (analysis g) = Fin 256 \<and> hop (analysis g) = 256 \<and>
         positionError (analysis g) = Fin (1 / 4)) \<and>
   specify_chunk 1024 (Fin (5025 / 4)) (Fin 0)
     = Some (\<lparr>chunk_begin = 232, chunk_end = 2280\<rparr>, \<lparr>chunk_begin = 232, chunk_end = 2280\<rparr>) \<and>
   to_int (dround (dmul (dmul (Fin 2) (Fin 256)) (Fin 1))) = Some 512 \<and>
   (\<exists>g. specify fresh_grain ((request_at (Fin (5025 / 4)) (Fin 2))\<lparr>reset := True\<rparr>) grain_at_1000
           rates48 8 (Fin 0)
           = Some (\<lparr>chunk_begin = 232, chunk_end = 2280\<rparr>, g) \<and>
         requestHop g = Fin 512 \<and> hopIdeal (analysis g) = Fin 512 \<and> hop (analysis g) = 512 \<and>
         positionError (analysis g) = Fin (- (1 / 4))) \<and>
   specify_chunk 1024 NaN (Fin 0)
     = Some (\<lparr>chunk_begin = 0, chunk_end = 0\<rparr>, \<lparr>chunk_begin = - 1024, chunk_end = 1024\<rparr>) \<and>
   to_int (dround (dsub (dmul (dmul (Fin (1 / 2)) (Fin 256)) (Fin 1)) (Fin (1 / 4)))) = Some 128 \<and>
   (\<exists>g. specify fresh_grain (request_at NaN (Fin (1 / 2))) grain_at_1000 rates48 8 (Fin 0)
           = Some (\<lparr>chunk_begin = 0, chunk_end = 0\<rparr>, g) \<and>
         requestHop g = Fin 128 \<and> hopIdeal (analysis g) = Fin 128 \<and> hop (analysis g) = 128 \<and>
         positionError (analysis g) = Fin (1 / 4)) \<and>
   specify_chunk 1024 (Fin (4001 / 4)) (Fin 0)
     = Some (\<lparr>chunk_begin = - 24, chunk_end = 2024\<rparr>, \<lparr>chunk_begin = - 24, chunk_end = 2024\<rparr>) \<and>
   to_int (dround (dmul (dmul (Fin 3) (Fin 256)) (Fin 1))) = Some 768 \<and>
   (\<exists>g. specify fresh_grain (request_at (Fin (4001 / 4)) (Fin 3)) fresh_grain rates48 8 (Fin 0)
           = Some (\<lparr>chunk_begin = - 24, chunk_end = 2024\<rparr>, g) \<and>
         requestHop g = Fin 768 \<and> hopIdeal (analysis g) = Fin 768 \<and> hop (analysis g) = 768 \<and>
         positionError (analysis g) = Fin (- (1 / 4)))"
  using
    specify_hop_and_error[where r = "request_at (Fin 1256) (Fin 1)" and previous = grain_at_1000
      and grain = fresh_grain and rates = rates48 and l = 8 and b = "Fin 0" and one = 256
      and frameCount = 2048 and half = 1024 and h = 256
      and returned = "\<lparr>chunk_begin = 232, chunk_end = 2280\<rparr>"
      and stored = "\<lparr>chunk_begin = 232, chunk_end = 2280\<rparr>", THEN conjunct2]
    specify_hop_and_error[where r = "(request_at (Fin (5025 / 4)) (Fin 2))\<lparr>reset := True\<rparr>"
      and previous = grain_at_1000
      and grain = fresh_grain and rates = rates48 and l = 8 and b = "Fin 0" and one = 256
      and frameCount = 2048 and half = 1024 and h = 512
      and returned = "\<lparr>chunk_begin = 232, chunk_end = 2280\<rparr>"
      and stored = "\<lparr>chunk_begin = 232, chunk_end = 2280\<rparr>", THEN conjunct2]
    specify_hop_and_error[where r = "request_at NaN (Fin (1 / 2))" and previous = grain_at_1000
      and grain = fresh_grain and rates = rates48 and l = 8 and b = "Fin 0" and one = 256
      and frameCount = 2048 and half = 1024 and h = 128
      and returned = "\<lparr>chunk_begin = 0, chunk_end = 0\<rparr>"
      and stored = "\<lparr>chunk_begin = - 1024, chunk_end = 1024\<rparr>", THEN conjunct2]
    specify_hop_and_error[where r = "request_at (Fin (4001 / 4)) (Fin 3)" and previous = fresh_grain
      and grain = fresh_grain and rates = rates48 and l = 8 and b = "Fin 0" and one = 256
      and frameCount = 2048 and half = 1024 and h = 768
      and returned = "\<lparr>chunk_begin = - 24, chunk_end = 2024\<rparr>"
      and stored = "\<lparr>chunk_begin = - 24, chunk_end = 2024\<rparr>", THEN conjunct2]
  by (simp add: Let_def Operations_setup_def select_functions_def resampleRatio_def rateRatio_def
        of_int32_def shl1_def specify_half_def specify_chunk_def
        Grain_init_def Operations_init_def dsub_def dne_def chk_def INT_MIN_def INT_MAX_def
        cround_def ctrunc_def rates48_def request_at_def fresh_grain_def grain_at_1000_def)

text \<open>
  Claim C3, as amended. For every call of \<open>Grain::specify\<close> that has a defined result: for
  a not-a-number position the returned chunk is empty; otherwise it is
  \<open>[centre - half, centre + half)\<close> with \<open>centre = round(request.position -
  bufferStartPosition)\<close>, where \<open>half\<close> is half the transform length
  \<open>1 << (log2SynthesisHop + 3)\<close> when the input ratio is 1, as it is whenever the input
  resampler is not active, and \<open>round(transformLength / 2 / inputRatio) + 1\<close> when the input
  ratio is not 1.
\<close>

theorem specify_input_chunk:
  assumes "specify grain r previous rates l b = Some (chunk, grain')"
  shows "\<exists>transformLength half.
    shl1 (l + 3) = Some transformLength \<and>
    (let operation = input_op (resampleOperations grain') in
       (if deq (ratio operation) (Fin 1) then half = transformLength div 2
        else of_int32 (half - 1)
               = dround (ddiv (of_int32 (transformLength div 2)) (ratio operation))) \<and>
       (func operation = None \<longrightarrow> half = transformLength div 2)) \<and>
    (if isnan (position r) then chunk = \<lparr>chunk_begin = 0, chunk_end = 0\<rparr>
     else \<exists>centre. of_int32 centre = dround (dsub (position r) b) \<and>
            chunk = \<lparr>chunk_begin = centre - half, chunk_end = centre + half\<rparr>)"
proof -
  from specify_fields(5)[OF assms] obtain lt frameCount half where
    lt: "chk (l + 3) = Some lt" and fc: "shl1 lt = Some frameCount"
    and half: "specify_half frameCount (ratio (input_op (resampleOperations grain'))) = Some half"
    and ch: "specify_chunk half (position r) b = Some (chunk, inputChunk grain')"
    by blast
  from lt have "lt = l + 3"
    by (auto simp: chk_def split: if_splits)
  with fc have 1: "shl1 (l + 3) = Some frameCount"
    by simp
  note h = specify_half_result[OF half]
  have 2: "func (input_op (resampleOperations grain')) = None \<longrightarrow> half = frameCount div 2"
    using h setup_input_ratio[of rates "pitch r" "resampleMode r"] specify_fields(2)[OF assms]
    by (auto split: if_splits)
  show ?thesis
    apply (rule exI[of _ frameCount], rule exI[of _ half])
    using 1 h 2 specify_chunk_result[OF ch] by (simp add: Let_def)
qed

theorem specify_input_chunk_witness:
  "specify fresh_grain
     ((request_at (Fin (4001 / 4)) (Fin 1))\<lparr>pitch := Fin 2, resampleMode := resampleMode_autoIn\<rparr>)
     fresh_grain rates48 8 (Fin 0) \<noteq> None \<and>
   shl1 (8 + 3) = Some 2048 \<and>
   of_int32 (2049 - 1) = dround (ddiv (of_int32 (2048 div 2)) (Fin (1 / 2))) \<and>
   of_int32 1000 = dround (dsub (Fin (4001 / 4)) (Fin 0)) \<and>
   map_option fst (specify fresh_grain
     ((request_at (Fin (4001 / 4)) (Fin 1))\<lparr>pitch := Fin 2, resampleMode := resampleMode_autoIn\<rparr>)
     fresh_grain rates48 8 (Fin 0)) = Some \<lparr>chunk_begin = 1000 - 2049, chunk_end = 1000 + 2049\<rparr>"
  using specify_input_chunk[OF specify_example_pitch2] specify_example_pitch2
  by (simp add: shl1_def of_int32_def cround_def dsub_def)

text \<open>
  The claim as stated fails: at pitch 2 in mode \<open>autoIn\<close>, equal sample rates, a synthesis
  hop of 256 and position 1000.25, the input resampler is active with ratio 1/2, the
  centre is 1000 and the transform length 2048, so that the claimed half width is
  \<open>1024 / (1/2) = 2048\<close>; the chunk returned is \<open>[1000 - 2049, 1000 + 2049)\<close>.
\<close>

theorem specify_chunk_not_scaled_half:
  "\<exists>chunk grain'.
     specify fresh_grain
       ((request_at (Fin (4001 / 4)) (Fin 1))\<lparr>pitch := Fin 2, resampleMode := resampleMode_autoIn\<rparr>)
       fresh_grain rates48 8 (Fin 0) = Some (chunk, grain') \<and>
     func (input_op (resampleOperations grain')) \<noteq> None \<and>
     claimed_half 2048 (input_op (resampleOperations grain')) = Fin 2048 \<and>
     of_int32 1000 = dround (dsub (Fin (4001 / 4)) (Fin 0)) \<and>
     chunk = \<lparr>chunk_begin = 1000 - 2049, chunk_end = 1000 + 2049\<rparr> \<and>
     chunk \<noteq> \<lparr>chunk_begin = 1000 - 2048, chunk_end = 1000 + 2048\<rparr>"
  by (simp add: specify_example_pitch2 claimed_half_def of_int32_def cround_def dsub_def)

section \<open>The ring: flushing\<close>

lemma flushed_iff: "flushed vector \<longleftrightarrow> list_all (\<lambda>g. isnan (position (request g))) vector"
  by (induction vector) auto

lemma upt_4: "[0 ..< 4] = [0, 1, 2, 3]"
  by (simp add: upt_rec)

text \<open>
  Claim C9. A stretcher as constructed is flushed before any call of \<open>specifyGrain\<close>:
  each of the four grains of the ring has a not-a-number request position and the request
  pitch 1, whatever the indeterminate initial contents of the other members; the guard
  expects \<open>specifyGrain\<close>.
\<close>

theorem fresh_stretcher_flushed:
  "isFlushed (Stretcher_init rates l u) \<and>
   map (\<lambda>g. (position (request g), pitch (request g))) (grains (Stretcher_init rates l u))
     = replicate 4 (NaN, Fin 1) \<and>
   expected (instrumentation (Stretcher_init rates l u)) = 0"
  by (simp add: isFlushed_def Stretcher_init_def Grain_init_def Instrumentation_init_def upt_4
        numeral_eq_Suc)

section \<open>The stretcher: what the three functions change\<close>

lemma Call_Return: "Call i n = Return i' \<longleftrightarrow> n = expected i \<and> i' = i\<lparr>expected := (n + 1) mod 3\<rparr>"
  by (auto simp: Call_def)

lemma Grains_rotate_Some:
  "Grains_rotate vector = Some vector' \<Longrightarrow>
   3 \<le> length vector \<and> vector' = last vector # butlast vector \<and> length vector' = length vector"
  by (auto simp: Grains_rotate_def split: if_splits)

lemma specifyGrain_Some:
  assumes "specifyGrain s r b = Some (chunk, s')"
  shows "\<exists>grain'. 3 \<le> length (grains s) \<and>
           specify (last (grains s)) r (hd (grains s)) (sampleRates s) (log2SynthesisHop s) b
             = Some (chunk, grain') \<and>
           grains s' = grain' # butlast (grains s) \<and>
           expected (instrumentation s) = 0 \<and>
           instrumentation s' = (instrumentation s)\<lparr>expected := 1\<rparr> \<and>
           sampleRates s' = sampleRates s \<and> log2SynthesisHop s' = log2SynthesisHop s"
proof -
  from assms obtain i vector grain' where
    i: "Call (instrumentation s) 0 = Return i"
    and v: "Grains_rotate (grains s) = Some vector"
    and sp: "specify (vector ! 0) r (vector ! 1) (sampleRates s) (log2SynthesisHop s) b = Some (chunk, grain')"
    and s': "s' = s\<lparr>instrumentation := i, grains := vector[0 := grain']\<rparr>"
    unfolding specifyGrain_def
    by (auto simp: bind_eq_Some_conv split: outcome.splits)
  from Grains_rotate_Some[OF v] have len: "3 \<le> length (grains s)"
    and vec: "vector = last (grains s) # butlast (grains s)" by auto
  from len have b1: "butlast (grains s) ! 0 = hd (grains s)"
    by (cases "grains s") (auto simp: nth_butlast hd_conv_nth)
  show ?thesis
    using i sp s' len b1 by (auto simp: vec Call_Return)
qed

lemma analyseGrain_Some:
  assumes "analyseGrain binCount w s d h t = Some (m, s')"
  shows "\<exists>g. grains s' = (grains s)[0 := g] \<and>
           request g = request (grains s ! 0) \<and> analysis g = analysis (grains s ! 0) \<and>
           passthrough g = passthrough (grains s ! 0) \<and>
           2 \<le> length (grains s) \<and>
           expected (instrumentation s) = 1 \<and>
           instrumentation s' = (instrumentation s)\<lparr>expected := 2\<rparr> \<and>
           sampleRates s' = sampleRates s \<and> log2SynthesisHop s' = log2SynthesisHop s"
  using assms unfolding analyseGrain_def
  by (auto simp: bind_eq_Some_conv Call_Return Let_def split: outcome.splits if_splits)

lemma synthesiseGrain_Some:
  assumes "synthesiseGrain propagate s = Some (t, s')"
  shows "grains s' = grains s \<and> 4 \<le> length (grains s) \<and>
         expected (instrumentation s) = 2 \<and>
         instrumentation s' = (instrumentation s)\<lparr>expected := 0\<rparr> \<and>
         sampleRates s' = sampleRates s \<and> log2SynthesisHop s' = log2SynthesisHop s"
  using assms unfolding synthesiseGrain_def
  by (auto simp: Call_Return Let_def split: outcome.splits if_splits)

lemma processGrain_Some:
  assumes "processGrain binCount propagate s f = Some s'"
  shows "\<exists>chunk grain' g.
           specify (last (grains s)) (feed_request f) (hd (grains s)) (sampleRates s)
             (log2SynthesisHop s) (feed_bufferStartPosition f) = Some (chunk, grain') \<and>
           grains s' = g # butlast (grains s) \<and>
           request g = feed_request f \<and> analysis g = analysis grain' \<and>
           passthrough g = passthrough grain' \<and>
           4 \<le> length (grains s) \<and>
           expected (instrumentation s) = 0 \<and> expected (instrumentation s') = 0 \<and>
           sampleRates s' = sampleRates s \<and> log2SynthesisHop s' = log2SynthesisHop s"
proof -
  from assms obtain chunk s1 m s2 t where
    1: "specifyGrain s (feed_request f) (feed_bufferStartPosition f) = Some (chunk, s1)"
    and 2: "analyseGrain binCount (feed_windowLog2 f) s1 (feed_data_is_null f) (feed_muteHead f) (feed_muteTail f) = Some (m, s2)"
    and 3: "synthesiseGrain propagate s2 = Some (t, s')"
    unfolding processGrain_def by (auto simp: bind_eq_Some_conv)
  from specifyGrain_Some[OF 1] obtain grain' where
    sp: "specify (last (grains s)) (feed_request f) (hd (grains s)) (sampleRates s)
             (log2SynthesisHop s) (feed_bufferStartPosition f) = Some (chunk, grain')"
    and g1: "grains s1 = grain' # butlast (grains s)"
    and rest1: "3 \<le> length (grains s)" "expected (instrumentation s) = 0"
       "sampleRates s1 = sampleRates s" "log2SynthesisHop s1 = log2SynthesisHop s"
    by blast
  from analyseGrain_Some[OF 2] obtain g where
    g2: "grains s2 = (grains s1)[0 := g]"
    and g: "request g = request (grains s1 ! 0)" "analysis g = analysis (grains s1 ! 0)"
       "passthrough g = passthrough (grains s1 ! 0)"
    and rest2: "instrumentation s2 = (instrumentation s1)\<lparr>expected := 2\<rparr>"
       "sampleRates s2 = sampleRates s1" "log2SynthesisHop s2 = log2SynthesisHop s1"
    by blast
  note y = synthesiseGrain_Some[OF 3]
  have rq: "request grain' = feed_request f" by (rule specify_fields(1)[OF sp])
  show ?thesis
    apply (rule exI[of _ chunk], rule exI[of _ grain'], rule exI[of _ g])
    using sp g1 rest1 g2 g rest2 y rq by auto
qed

lemma processGrains_append:
  "processGrains bc pr s (xs @ ys) =
     (case processGrains bc pr s xs of None \<Rightarrow> None | Some s' \<Rightarrow> processGrains bc pr s' ys)"
  by (induction xs arbitrary: s) (auto split: option.splits)

lemma take_butlast_shift:
  "length R = n \<Longrightarrow> take n (A @ x # butlast R) = take n (A @ x # R)"
proof (cases "n - length A")
  case 0
  then show ?thesis by simp
next
  case (Suc k)
  assume R: "length R = n"
  with Suc have "k \<le> length R - 1" by simp
  then have "take k (butlast R) = take k R"
    by (simp add: butlast_conv_take min_def)
  with Suc show ?thesis by simp
qed

lemma processGrains_requests:
  "processGrains bc pr s fs = Some s' \<Longrightarrow>
   map request (grains s') = take (length (grains s)) (rev (map feed_request fs) @ map request (grains s))
   \<and> length (grains s') = length (grains s)"
proof (induction fs arbitrary: s)
  case Nil
  then show ?case by simp
next
  case (Cons f fs)
  then obtain s1 where 1: "processGrain bc pr s f = Some s1"
    and 2: "processGrains bc pr s1 fs = Some s'"
    by (auto split: option.splits)
  from processGrain_Some[OF 1] have
    r: "map request (grains s1) = feed_request f # butlast (map request (grains s))"
    and l: "length (grains s1) = length (grains s)" by (auto simp: map_butlast)
  from Cons.IH[OF 2] show ?case
    using take_butlast_shift[of "map request (grains s)" "length (grains s)" "rev (map feed_request fs)" "feed_request f"]
    by (simp add: r l)
qed

text \<open>
  Claim C5, as amended. On a stretcher whose ring holds four grains and that has processed
  any number of grains, once grains with a not-a-number request position have been
  processed for at least four consecutive grains, \<open>isFlushed\<close> is true. (\<open>isFlushed\<close> is
  true exactly when every grain of the ring has a not-a-number request position, lemma
  \<open>flushed_iff\<close>.)
\<close>

theorem flushed_after_four:
  assumes "length (grains s) = 4"
    and "processGrains binCount propagate s (earlier @ fs) = Some s'"
    and "list_all (\<lambda>f. isnan (position (feed_request f))) fs"
    and "4 \<le> length fs"
  shows "isFlushed s'"
proof -
  from assms(2) obtain s1 where 1: "processGrains binCount propagate s earlier = Some s1"
    and 2: "processGrains binCount propagate s1 fs = Some s'"
    by (auto simp: processGrains_append split: option.splits)
  from processGrains_requests[OF 1] assms(1) have l1: "length (grains s1) = 4" by simp
  from processGrains_requests[OF 2] l1 assms(4)
  have "map request (grains s') = take 4 (rev (map feed_request fs))" by simp
  then have "map position (map request (grains s')) = map position (take 4 (rev (map feed_request fs)))"
    by simp
  then have "map (\<lambda>g. position (request g)) (grains s') = map position (take 4 (rev (map feed_request fs)))"
    by (simp add: comp_def)
  moreover have "list_all isnan (map position (take 4 (rev (map feed_request fs))))"
  proof -
    have "set (take 4 (rev (map feed_request fs))) \<subseteq> feed_request ` set fs"
      using set_take_subset[of 4 "rev (map feed_request fs)"] by simp
    then show ?thesis using assms(3) by (auto simp: list_all_iff)
  qed
  ultimately have "list_all isnan (map (\<lambda>g. position (request g)) (grains s'))" by simp
  then show ?thesis by (simp add: isFlushed_def flushed_iff list_all_iff)
qed

lemmas stretcher_eval = processGrain_def specifyGrain_def analyseGrain_def synthesiseGrain_def
  Call_def Grains_rotate_def inputChunkMap_def clamp_def valid_def synthesise_def
  Stretcher_init_def Instrumentation_init_def upt_4 isFlushed_def
  fresh_stretcher_def feed_valid_def feed_flush_def example_binCount_def example_propagate_def

lemma process_five_defined:
  "\<exists>s'. processGrains example_binCount example_propagate fresh_stretcher
          ([feed_valid] @ [feed_flush, feed_flush, feed_flush, feed_flush]) = Some s'"
  by (simp add: stretcher_eval specify_eval)

theorem flushed_after_four_witness:
  "\<exists>s'. length (grains fresh_stretcher) = 4 \<and>
     processGrains example_binCount example_propagate fresh_stretcher
       ([feed_valid] @ [feed_flush, feed_flush, feed_flush, feed_flush]) = Some s' \<and>
     list_all (\<lambda>f. isnan (position (feed_request f))) [feed_flush, feed_flush, feed_flush, feed_flush] \<and>
     4 \<le> length [feed_flush, feed_flush, feed_flush, feed_flush] \<and>
     isFlushed s'"
proof -
  from process_five_defined obtain s' where
    p: "processGrains example_binCount example_propagate fresh_stretcher
          ([feed_valid] @ [feed_flush, feed_flush, feed_flush, feed_flush]) = Some s'"
    by blast
  have l: "length (grains fresh_stretcher) = 4"
    by (simp add: fresh_stretcher_def Stretcher_init_def)
  have n: "list_all (\<lambda>f. isnan (position (feed_request f))) [feed_flush, feed_flush, feed_flush, feed_flush]"
    by (simp add: feed_flush_def request_at_def)
  have "isFlushed s'"
    by (rule flushed_after_four[OF l p n]) simp
  with l p n show ?thesis by auto
qed

text \<open>
  The claim as stated fails: after one valid grain and three grains with a not-a-number
  position, on a stretcher as constructed, the fourth grain of the ring still holds the
  valid request and \<open>isFlushed\<close> is false.
\<close>

theorem not_flushed_after_three:
  "\<exists>s'. processGrains example_binCount example_propagate fresh_stretcher
          [feed_valid, feed_flush, feed_flush, feed_flush] = Some s' \<and>
        list_all (\<lambda>f. isnan (position (feed_request f))) [feed_flush, feed_flush, feed_flush] \<and>
        \<not> isFlushed s'"
  by (simp add: stretcher_eval specify_eval)

section \<open>The position error\<close>

lemma specify_hop_error_bound:
  assumes "specify_hop unitHop inputRatio r previous = Some (rh, ideal, c, e, h)"
    and "\<exists>x. position r = Fin x"
  shows "\<exists>y. e = Fin y \<and> \<bar>y\<bar> \<le> 1 / 2"
proof (cases c)
  case True
  with assms(1) obtain d where h: "to_int (dround (dneg d)) = Some h" and e: "e = dadd d (of_int32 h)"
    unfolding specify_hop_def by (auto simp: Let_def bind_eq_Some_conv split: if_splits)
  from to_int_dround[OF h] obtain x where x: "dneg d = Fin x" "h = cround x" by blast
  then have d: "d = Fin (- x)" by (cases d) auto
  have "\<bar>- x + of_int (cround x)\<bar> \<le> 1 / 2" using cround_bound[of x] by linarith
  then show ?thesis using e d x by (simp add: of_int32_def)
next
  case False
  with assms(1) have e: "e = dsub (dround (position r)) (position r)"
    unfolding specify_hop_def by (auto simp: Let_def bind_eq_Some_conv split: if_splits)
  from assms(2) obtain x where x: "position r = Fin x" by blast
  have "\<bar>of_int (cround x) - x\<bar> \<le> 1 / 2" using cround_bound[of x] by linarith
  then show ?thesis using e x by (simp add: dsub_def)
qed

lemma specify_error_bound:
  assumes "specify grain r previous rates l b = Some (chunk, grain')" "\<not> isnan (position r)"
  shows "error_bounded grain'"
proof -
  from specify_position[OF assms(1)] assms(2) have "\<exists>x. position r = Fin x" by auto
  moreover from specify_fields(3)[OF assms(1)] obtain u i where
    "specify_hop u i r previous = Some (requestHop grain', hopIdeal (analysis grain'),
       grain_continuous grain', positionError (analysis grain'), hop (analysis grain'))"
    by blast
  ultimately have "\<exists>y. positionError (analysis grain') = Fin y \<and> \<bar>y\<bar> \<le> 1 / 2"
    by (rule specify_hop_error_bound[rotated])
  then show ?thesis by (auto simp: error_bounded_def)
qed

lemma processGrain_error_bounded:
  assumes "processGrain binCount propagate s f = Some s'"
    and "list_all (\<lambda>g. valid g \<longrightarrow> error_bounded g) (grains s)"
  shows "list_all (\<lambda>g. valid g \<longrightarrow> error_bounded g) (grains s')"
proof -
  from processGrain_Some[OF assms(1)] obtain chunk grain' g where
    sp: "specify (last (grains s)) (feed_request f) (hd (grains s)) (sampleRates s)
             (log2SynthesisHop s) (feed_bufferStartPosition f) = Some (chunk, grain')"
    and gs: "grains s' = g # butlast (grains s)"
    and g: "request g = feed_request f" "analysis g = analysis grain'"
    by blast
  have "valid g \<longrightarrow> error_bounded g"
    using specify_error_bound[OF sp] g by (auto simp: valid_def error_bounded_def)
  moreover have "list_all (\<lambda>g. valid g \<longrightarrow> error_bounded g) (butlast (grains s))"
    using assms(2) by (auto simp: list_all_iff dest: in_set_butlastD)
  ultimately show ?thesis by (simp add: gs)
qed

lemma processGrains_error_bounded:
  "processGrains binCount propagate s fs = Some s' \<Longrightarrow>
   list_all (\<lambda>g. valid g \<longrightarrow> error_bounded g) (grains s) \<Longrightarrow>
   list_all (\<lambda>g. valid g \<longrightarrow> error_bounded g) (grains s')"
proof (induction fs arbitrary: s)
  case Nil
  then show ?case by simp
next
  case (Cons f fs)
  from Cons.prems(1) obtain s1 where 1: "processGrain binCount propagate s f = Some s1"
    and 2: "processGrains binCount propagate s1 fs = Some s'"
    by (auto split: option.splits)
  show ?case
    by (rule Cons.IH[OF 2 processGrain_error_bounded[OF 1 Cons.prems(2)]])
qed

text \<open>
  Claim C8. For every call of \<open>Grain::specify\<close> that has a defined result and whose
  request position is not a not-a-number, the resulting position error is finite and at
  most 1/2 in absolute value, in the continuous and in the other branch. The bound is an
  invariant of the ring: it holds for every valid grain of a stretcher as constructed
  (there is none), and processing any sequence of grains preserves it.
\<close>

theorem position_error_bound:
  "(specify grain r previous rates l b = Some (chunk, grain') \<and> \<not> isnan (position r)
      \<longrightarrow> error_bounded grain') \<and>
   list_all (\<lambda>g. valid g \<longrightarrow> error_bounded g) (grains (Stretcher_init rates' l' u)) \<and>
   (processGrains binCount propagate s fs = Some s' \<and>
    list_all (\<lambda>g. valid g \<longrightarrow> error_bounded g) (grains s)
      \<longrightarrow> list_all (\<lambda>g. valid g \<longrightarrow> error_bounded g) (grains s'))"
proof (intro conjI impI)
  assume "specify grain r previous rates l b = Some (chunk, grain') \<and> \<not> isnan (position r)"
  then show "error_bounded grain'" using specify_error_bound by blast
next
  show "list_all (\<lambda>g. valid g \<longrightarrow> error_bounded g) (grains (Stretcher_init rates' l' u))"
    by (simp add: Stretcher_init_def Grain_init_def valid_def list_all_iff)
next
  assume "processGrains binCount propagate s fs = Some s' \<and>
    list_all (\<lambda>g. valid g \<longrightarrow> error_bounded g) (grains s)"
  then show "list_all (\<lambda>g. valid g \<longrightarrow> error_bounded g) (grains s')"
    using processGrains_error_bounded by blast
qed

lemma process_two_defined:
  "\<exists>s'. processGrains example_binCount example_propagate fresh_stretcher
          [feed_valid, feed_valid\<lparr>feed_request := request_at (Fin (5027 / 4)) (Fin 1)\<rparr>] = Some s'"
  by (simp add: stretcher_eval specify_eval)

theorem position_error_bound_witness:
  "\<exists>s'. specify fresh_grain (request_at (Fin 1256) (Fin 1)) grain_at_1000 rates48 8 (Fin 0) \<noteq> None \<and>
     \<not> isnan (position (request_at (Fin 1256) (Fin 1))) \<and>
     positionError (analysis (snd (the (specify fresh_grain (request_at (Fin 1256) (Fin 1))
        grain_at_1000 rates48 8 (Fin 0))))) = Fin (1 / 4) \<and>
     processGrains example_binCount example_propagate fresh_stretcher
       [feed_valid, feed_valid\<lparr>feed_request := request_at (Fin (5027 / 4)) (Fin 1)\<rparr>] = Some s' \<and>
     list_all (\<lambda>g. valid g \<longrightarrow> error_bounded g) (grains fresh_stretcher) \<and>
     list_all (\<lambda>g. valid g \<longrightarrow> error_bounded g) (grains s') \<and>
     map position (map request (grains s')) = [Fin (5027 / 4), Fin (4001 / 4), NaN, NaN]"
proof -
  from process_two_defined obtain s' where
    p: "processGrains example_binCount example_propagate fresh_stretcher
          [feed_valid, feed_valid\<lparr>feed_request := request_at (Fin (5027 / 4)) (Fin 1)\<rparr>] = Some s'"
    by blast
  note t = position_error_bound[of fresh_grain "request_at (Fin 1256) (Fin 1)" grain_at_1000 rates48 8
      "Fin 0" _ _ rates48 8 "\<lambda>k. request_at (Fin 0) (Fin 0)" example_binCount example_propagate fresh_stretcher
      "[feed_valid, feed_valid\<lparr>feed_request := request_at (Fin (5027 / 4)) (Fin 1)\<rparr>]" s']
  have i: "list_all (\<lambda>g. valid g \<longrightarrow> error_bounded g) (grains fresh_stretcher)"
    using t by (simp add: fresh_stretcher_def)
  have b: "list_all (\<lambda>g. valid g \<longrightarrow> error_bounded g) (grains s')"
    using t p i by blast
  from processGrains_requests[OF p]
  have v: "map position (map request (grains s')) = [Fin (5027 / 4), Fin (4001 / 4), NaN, NaN]"
    by (simp add: fresh_stretcher_def Stretcher_init_def upt_4 feed_valid_def request_at_def
          Grain_init_def)
  have a1: "specify fresh_grain (request_at (Fin 1256) (Fin 1)) grain_at_1000 rates48 8 (Fin 0) \<noteq> None"
    by (simp add: specify_example_continuous)
  have a2: "\<not> isnan (position (request_at (Fin 1256) (Fin 1)))"
    by (simp add: request_at_def)
  have a3: "positionError (analysis (snd (the (specify fresh_grain (request_at (Fin 1256) (Fin 1))
        grain_at_1000 rates48 8 (Fin 0))))) = Fin (1 / 4)"
    by (simp add: specify_example_continuous)
  show ?thesis
    by (rule exI[of _ s'], intro conjI) (rule a1 a2 a3 p i b v)+
qed

section \<open>Passthrough and the mute counts\<close>

lemma specify_passthrough_result:
  assumes "specify_passthrough v c previous = Some p"
  shows "p = (if deq (dabs v) (Fin 1) \<and> (c \<longrightarrow> passthrough previous = (if v = Fin 1 then 1 else - 1))
              then (if v = Fin 1 then 1 else - 1) else 0)"
proof (cases "deq (dabs v) (Fin 1)")
  case True
  then have "v = Fin 1 \<or> v = Fin (- 1)" by (cases v) auto
  then show ?thesis using assms True
    by (auto simp: specify_passthrough_def to_int_unit split: if_splits)
next
  case False
  then show ?thesis using assms by (auto simp: specify_passthrough_def)
qed

lemma phasor_zero: "phasor 0 = 1"
  by (simp add: phasor_def)

text \<open>
  Claim C7, as amended. For every call of \<open>Grain::specify\<close> that has a defined result,
  the grain is continuous when the request is no reset and the previous position is not a
  not-a-number, and \<open>passthrough\<close> is the value of \<open>analysis.speed\<close> (1 or -1) when
  \<open>|analysis.speed| == 1\<close> and either the grain is not continuous or the previous grain's
  \<open>passthrough\<close> has that same value; it is 0 otherwise. When \<open>passthrough\<close> of a valid
  grain is not 0, the rotation of every valid bin is zero and synthesis multiplies every
  valid bin by 1.
\<close>

theorem passthrough_arming:
  "(specify grain r previous rates l b = Some (chunk, grain') \<longrightarrow>
      (let v = analysis_speed (analysis grain'); unit = (if v = Fin 1 then 1 else - 1) in
       grain_continuous grain' = (\<not> reset r \<and> \<not> isnan (position (request previous))) \<and>
       passthrough grain' =
         (if deq (dabs v) (Fin 1) \<and> (grain_continuous grain' \<longrightarrow> passthrough previous = unit)
          then unit else 0))) \<and>
   (synthesiseGrain propagate s = Some (t, s') \<and> valid (grains s ! 0) \<and>
    passthrough (grains s ! 0) \<noteq> 0 \<longrightarrow>
      synthesise propagate (grains s ! 0) (grains s ! 1)
        = replicate (nat (validBinCount (grains s ! 0))) 0 \<and>
      t = replicate (nat (validBinCount (grains s ! 0))) 1)"
proof (intro conjI impI)
  assume a: "specify grain r previous rates l b = Some (chunk, grain')"
  from specify_fields(3)[OF a] obtain u i where
    h: "specify_hop u i r previous = Some (requestHop grain', hopIdeal (analysis grain'),
       grain_continuous grain', positionError (analysis grain'), hop (analysis grain'))"
    by blast
  note c = specify_hop_result(3)[OF h specify_position[OF a]]
  note p = specify_passthrough_result[OF specify_fields(4)[OF a]]
  show "let v = analysis_speed (analysis grain'); unit = (if v = Fin 1 then 1 else - 1) in
       grain_continuous grain' = (\<not> reset r \<and> \<not> isnan (position (request previous))) \<and>
       passthrough grain' =
         (if deq (dabs v) (Fin 1) \<and> (grain_continuous grain' \<longrightarrow> passthrough previous = unit)
          then unit else 0)"
    unfolding Let_def using c p by simp
next
  assume a: "synthesiseGrain propagate s = Some (t, s') \<and> valid (grains s ! 0) \<and>
    passthrough (grains s ! 0) \<noteq> 0"
  then show "synthesise propagate (grains s ! 0) (grains s ! 1)
        = replicate (nat (validBinCount (grains s ! 0))) 0"
    by (simp add: synthesise_def)
  from a show "t = replicate (nat (validBinCount (grains s ! 0))) 1"
    unfolding synthesiseGrain_def
    by (auto simp: Let_def synthesise_def phasor_zero split: outcome.splits if_splits)
qed

lemma analysed_example:
  "\<exists>chunk s1 m s2.
     specifyGrain fresh_stretcher (feed_request feed_valid) (feed_bufferStartPosition feed_valid)
       = Some (chunk, s1) \<and>
     analyseGrain example_binCount 11 s1 False 0 0 = Some (m, s2) \<and>
     valid (grains s2 ! 0) \<and> passthrough (grains s2 ! 0) = 1 \<and> validBinCount (grains s2 ! 0) = 1025 \<and>
     (\<exists>t s3. synthesiseGrain example_propagate s2 = Some (t, s3))"
  by (simp add: stretcher_eval specify_eval dceil.simps)

theorem passthrough_arming_witness:
  "\<exists>chunk s1 m s2 t s3.
     specify fresh_grain (request_at (Fin (4001 / 4)) (Fin 1)) fresh_grain rates48 8 (Fin 0) \<noteq> None \<and>
     passthrough (snd (the (specify fresh_grain (request_at (Fin (4001 / 4)) (Fin 1)) fresh_grain
        rates48 8 (Fin 0)))) = 1 \<and>
     specifyGrain fresh_stretcher (feed_request feed_valid) (feed_bufferStartPosition feed_valid)
       = Some (chunk, s1) \<and>
     analyseGrain example_binCount 11 s1 False 0 0 = Some (m, s2) \<and>
     synthesiseGrain example_propagate s2 = Some (t, s3) \<and>
     valid (grains s2 ! 0) \<and> passthrough (grains s2 ! 0) \<noteq> 0 \<and>
     t = replicate 1025 1"
proof -
  from analysed_example obtain chunk s1 m s2 t s3 where
    1: "specifyGrain fresh_stretcher (feed_request feed_valid) (feed_bufferStartPosition feed_valid)
       = Some (chunk, s1)"
    and 2: "analyseGrain example_binCount 11 s1 False 0 0 = Some (m, s2)"
    and 3: "valid (grains s2 ! 0)" "passthrough (grains s2 ! 0) = 1" "validBinCount (grains s2 ! 0) = 1025"
    and 4: "synthesiseGrain example_propagate s2 = Some (t, s3)"
    by blast
  from 3 have 5: "passthrough (grains s2 ! 0) \<noteq> 0" by simp
  have t: "t = replicate 1025 1"
    using passthrough_arming[of fresh_grain "request_at (Fin (4001 / 4)) (Fin 1)" fresh_grain rates48 8
        "Fin 0" _ _ example_propagate s2 t s3] 3 4 by simp
  have a1: "specify fresh_grain (request_at (Fin (4001 / 4)) (Fin 1)) fresh_grain rates48 8 (Fin 0) \<noteq> None"
    by (simp add: specify_example_first)
  have a2: "passthrough (snd (the (specify fresh_grain (request_at (Fin (4001 / 4)) (Fin 1)) fresh_grain
        rates48 8 (Fin 0)))) = 1"
    by (simp add: specify_example_first)
  show ?thesis
    by (rule exI[of _ chunk], rule exI[of _ s1], rule exI[of _ m], rule exI[of _ s2],
        rule exI[of _ t], rule exI[of _ s3], intro conjI) (rule a1 a2 1 2 4 3(1) 5 t)+
qed

text \<open>
  The claim as stated fails: the first grain of a stream, specified at speed 1 after a grain
  as constructed, whose \<open>passthrough\<close> is 0, is armed.
\<close>

theorem passthrough_armed_on_first_grain:
  "\<exists>chunk grain'.
     passthrough fresh_grain = 0 \<and>
     specify fresh_grain (request_at (Fin (4001 / 4)) (Fin 1)) fresh_grain rates48 8 (Fin 0)
       = Some (chunk, grain') \<and>
     deq (dabs (analysis_speed (analysis grain'))) (Fin 1) \<and>
     passthrough grain' = 1"
  by (simp add: specify_example_first) (simp add: fresh_grain_def Grain_init_def)

text \<open>
  The mute counts of \<open>Grain::inputChunkMap\<close>, and what \<open>analyseGrain\<close> does with them:
  the counts stored in the grain do not enter the map, a valid grain is processed with
  the counts that the map returns, and an invalid grain is not processed.
\<close>

lemma inputChunkMap_result:
  assumes "inputChunkMap grain data_is_null head tail = Some x"
  shows "0 \<le> chunk_end (inputChunk grain) - chunk_begin (inputChunk grain)"
    and "x = (chunk_end (inputChunk grain) - chunk_begin (inputChunk grain),
              if data_is_null
              then (chunk_end (inputChunk grain) - chunk_begin (inputChunk grain), 0)
              else (max 0 (min head (chunk_end (inputChunk grain) - chunk_begin (inputChunk grain))),
                    max 0 (min tail (chunk_end (inputChunk grain) - chunk_begin (inputChunk grain)))))"
  using assms
  by (auto simp: inputChunkMap_def clamp_def chk_def bind_eq_Some_conv Let_def split: if_splits)

lemma inputChunkMap_defined:
  assumes "0 \<le> chunk_end (inputChunk grain) - chunk_begin (inputChunk grain)"
    and "chunk_end (inputChunk grain) - chunk_begin (inputChunk grain) \<le> INT_MAX"
  shows "inputChunkMap grain data_is_null head tail =
           Some (chunk_end (inputChunk grain) - chunk_begin (inputChunk grain),
              if data_is_null
              then (chunk_end (inputChunk grain) - chunk_begin (inputChunk grain), 0)
              else (max 0 (min head (chunk_end (inputChunk grain) - chunk_begin (inputChunk grain))),
                    max 0 (min tail (chunk_end (inputChunk grain) - chunk_begin (inputChunk grain)))))"
  using assms
  by (auto simp: inputChunkMap_def clamp_def chk_def Let_def INT_MIN_def INT_MAX_def)

lemma inputChunkMap_stored:
  "inputChunkMap (grain\<lparr>muteFrameCountHead := a, muteFrameCountTail := b, validBinCount := c\<rparr>)
     data_is_null head tail = inputChunkMap grain data_is_null head tail"
  by (simp add: inputChunkMap_def)

lemma analyseGrain_valid:
  assumes "analyseGrain binCount w s data_is_null head tail = Some (m, s')"
    and "valid (grains s ! 0)"
  shows "\<exists>x. m = Some x \<and> inputChunkMap (grains s ! 0) data_is_null head tail = Some x"
  using assms unfolding analyseGrain_def
  by (auto simp: bind_eq_Some_conv Let_def valid_def inputChunkMap_stored
           split: outcome.splits if_splits)

lemma analyseGrain_invalid:
  assumes "analyseGrain binCount w s data_is_null head tail = Some (m, s')"
    and "\<not> valid (grains s ! 0)"
  shows "m = None"
  using assms unfolding analyseGrain_def
  by (auto simp: bind_eq_Some_conv Let_def valid_def split: outcome.splits if_splits)

lemma analyseGrain_defined:
  assumes "valid (grains s ! 0)"
    and "expected (instrumentation s) = 1"
    and "2 \<le> length (grains s)"
    and "inputChunkMap (grains s ! 0) data_is_null head tail = Some x"
    and "chk (binCount (log2TransformLength (grains s ! 0)) - 1) = Some n"
    and "to_int (dceil (ddiv (of_int32 n) (ratio (output_op (resampleOperations (grains s ! 0))))))
           = Some c"
    and "chk (min c n + 1) = Some v"
  shows "\<exists>s'. analyseGrain binCount w s data_is_null head tail = Some (Some x, s')"
  using assms unfolding analyseGrain_def
  by (simp add: Call_def Let_def valid_def inputChunkMap_stored)

text \<open>
  Claim C10. For every call of \<open>analyseGrain\<close> on a valid grain, the samples are
  processed with these mute counts, where \<open>frameCount\<close> is the frame count of the grain's
  input chunk: for a null \<open>data\<close> pointer \<open>muteFrameCountHead\<close> is \<open>frameCount\<close> and
  \<open>muteFrameCountTail\<close> is 0, whatever the caller passed, so that no frame of the chunk is
  unmuted; for non-null data both are the caller's counts clamped to \<open>[0, frameCount]\<close>.
  The first part: every result of a call holds these counts. The second part: the call
  has a result with these counts whenever the guard expects \<open>analyseGrain\<close>, the chunk is
  not reversed and its frame count fits \<open>int\<close>, and the count of valid bins is defined.
\<close>

theorem analyseGrain_mute:
  "(let grain = grains s ! 0;
        frameCount = chunk_end (inputChunk grain) - chunk_begin (inputChunk grain);
        counts = (if data_is_null then (frameCount, 0)
                  else (max 0 (min head frameCount), max 0 (min tail frameCount)))
    in (valid grain \<and> analyseGrain binCount w s data_is_null head tail = Some (m, s') \<longrightarrow>
          m = Some (frameCount, counts) \<and>
          0 \<le> fst counts \<and> fst counts \<le> frameCount \<and>
          0 \<le> snd counts \<and> snd counts \<le> frameCount) \<and>
       (valid grain \<and> expected (instrumentation s) = 1 \<and> 2 \<le> length (grains s) \<and>
        0 \<le> frameCount \<and> frameCount \<le> INT_MAX \<and>
        chk (binCount (log2TransformLength grain) - 1) = Some n \<and>
        to_int (dceil (ddiv (of_int32 n) (ratio (output_op (resampleOperations grain))))) = Some c \<and>
        chk (min c n + 1) = Some v \<longrightarrow>
          (\<exists>s2. analyseGrain binCount w s data_is_null head tail
                  = Some (Some (frameCount, counts), s2))))"
proof -
  define frameCount where
    "frameCount = chunk_end (inputChunk (grains s ! 0)) - chunk_begin (inputChunk (grains s ! 0))"
  define counts where
    "counts = (if data_is_null then (frameCount, 0)
               else (max 0 (min head frameCount), max 0 (min tail frameCount)))"
  have 1: "m = Some (frameCount, counts) \<and>
          0 \<le> fst counts \<and> fst counts \<le> frameCount \<and>
          0 \<le> snd counts \<and> snd counts \<le> frameCount"
    if v: "valid (grains s ! 0)"
      and a: "analyseGrain binCount w s data_is_null head tail = Some (m, s')"
  proof -
    from analyseGrain_valid[OF a v] obtain x where m: "m = Some x"
      and x: "inputChunkMap (grains s ! 0) data_is_null head tail = Some x"
      by blast
    note r = inputChunkMap_result[OF x, folded frameCount_def]
    from r(2) have "x = (frameCount, counts)"
      by (simp add: counts_def)
    with m r(1) show ?thesis
      by (simp add: counts_def)
  qed
  have 2: "\<exists>s2. analyseGrain binCount w s data_is_null head tail
                  = Some (Some (frameCount, counts), s2)"
    if v: "valid (grains s ! 0)" and e: "expected (instrumentation s) = 1"
      and g: "2 \<le> length (grains s)"
      and f: "0 \<le> frameCount" "frameCount \<le> INT_MAX"
      and n: "chk (binCount (log2TransformLength (grains s ! 0)) - 1) = Some n"
      and c: "to_int (dceil (ddiv (of_int32 n) (ratio (output_op (resampleOperations (grains s ! 0))))))
           = Some c"
      and v': "chk (min c n + 1) = Some v"
  proof -
    have "inputChunkMap (grains s ! 0) data_is_null head tail = Some (frameCount, counts)"
      using inputChunkMap_defined[OF f[unfolded frameCount_def], of data_is_null head tail]
      by (simp add: counts_def frameCount_def)
    from analyseGrain_defined[where binCount = binCount, OF v e g this n c v'] show ?thesis .
  qed
  from 1 2 show ?thesis
    unfolding Let_def frameCount_def counts_def by blast
qed

lemmas specified_eval = specified_stretcher_def specifyGrain_def Call_def Grains_rotate_def
  Stretcher_init_def Instrumentation_init_def upt_4 fresh_stretcher_def feed_valid_def
  example_binCount_def valid_def

theorem analyseGrain_mute_witness:
  "valid (grains specified_stretcher ! 0) \<and>
   expected (instrumentation specified_stretcher) = 1 \<and>
   2 \<le> length (grains specified_stretcher) \<and>
   inputChunk (grains specified_stretcher ! 0) = \<lparr>chunk_begin = - 24, chunk_end = 2024\<rparr> \<and>
   (2048::int) \<le> INT_MAX \<and>
   (\<exists>s2. analyseGrain example_binCount 11 specified_stretcher True 5 7
           = Some (Some (2048, 2048, 0), s2)) \<and>
   (\<exists>s2. analyseGrain example_binCount 11 specified_stretcher False (- 3) 5000
           = Some (Some (2048, 0, 2048), s2)) \<and>
   (\<exists>s2. analyseGrain example_binCount 11 specified_stretcher False 5 7
           = Some (Some (2048, 5, 7), s2))"
  using
    analyseGrain_mute[where s = specified_stretcher and binCount = example_binCount and w = 11
      and data_is_null = True and head = 5 and tail = 7 and n = 1024 and c = 1024 and v = 1025]
    analyseGrain_mute[where s = specified_stretcher and binCount = example_binCount and w = 11
      and data_is_null = False and head = "- 3" and tail = 5000 and n = 1024 and c = 1024
      and v = 1025]
    analyseGrain_mute[where s = specified_stretcher and binCount = example_binCount and w = 11
      and data_is_null = False and head = 5 and tail = 7 and n = 1024 and c = 1024 and v = 1025]
  by (simp add: specified_eval specify_eval dceil.simps)

section \<open>The resampling loop: muted rows\<close>

lemma for_each_inv:
  assumes "for_each body cs s = Some s'" and "P s"
    and "\<And>c s s'. c \<in> set cs \<Longrightarrow> P s \<Longrightarrow> body c s = Some s' \<Longrightarrow> P s'"
  shows "P s'"
  using assms
proof (induction cs arbitrary: s)
  case Nil
  then show ?case by simp
next
  case (Cons c cs)
  from Cons.prems(1) obtain s1 where 1: "body c s = Some s1" and 2: "for_each body cs s1 = Some s'"
    by (auto split: option.splits)
  have "P s1" using Cons.prems(3)[of c s s1] Cons.prems(2) 1 by simp
  then show ?case using Cons.IH[OF 2] Cons.prems(3) by auto
qed

lemma for_each_rel:
  assumes "for_each body cs s = Some s'" and "R s t"
    and "\<And>c s t s'. c \<in> set cs \<Longrightarrow> R s t \<Longrightarrow> body c s = Some s' \<Longrightarrow>
           \<exists>t'. body2 c t = Some t' \<and> R s' t'"
  shows "\<exists>t'. for_each body2 cs t = Some t' \<and> R s' t'"
  using assms
proof (induction cs arbitrary: s t)
  case Nil
  then show ?case by simp
next
  case (Cons c cs)
  from Cons.prems(1) obtain s1 where 1: "body c s = Some s1" and 2: "for_each body cs s1 = Some s'"
    by (auto split: option.splits)
  from Cons.prems(3)[of c s t s1] Cons.prems(2) 1 obtain t1 where
    3: "body2 c t = Some t1" and 4: "R s1 t1" by auto
  from Cons.IH[OF 2 4] Cons.prems(3) obtain t' where "for_each body2 cs t1 = Some t'" "R s' t'"
    by (metis list.set_intros(2))
  with 3 show ?case by auto
qed

lemma store_same: "load m a = Some v \<Longrightarrow> store m a v = m"
  by (auto simp: load_def store_def split: if_splits)

lemma load_store_other: "a \<noteq> b \<Longrightarrow> load m b = Some w \<Longrightarrow> load (store m b v) a = load m a"
  by (auto simp: load_def store_def nat_eq_iff split: if_splits)

text \<open>In input mode a tap leaves the external buffer as it is and reads one cell of it.\<close>

lemma tap_Input:
  assumes "tap Input first ia ea co g (i, e) = Some (i', e')"
  shows "e' = e"
    and "load e2 ea = load e ea \<Longrightarrow> tap Input first ia ea co g (i, e2) = Some (i', e2)"
  using assms
  by (auto simp: tap_def filterTap_def bind_eq_Some_conv store_same)

text \<open>In output mode a tap leaves the internal buffer as it is and writes one cell of the external buffer.\<close>

lemma tap_Output:
  assumes "tap Output first ia ea co g (i, e) = Some (i', e')"
  shows "i' = i" and "a \<noteq> ea \<Longrightarrow> load e' a = load e a"
  using assms
  by (auto simp: tap_def filterTap_def bind_eq_Some_conv store_same load_store_other split: if_splits)


lemma step_Input:
  assumes "step I Input x cc istride row es g (i, e) = Some (i', e')"
    and "\<And>c. c < cc \<Longrightarrow> load e2 (row + int c * es) = load e (row + int c * es)"
  shows "e' = e \<and> step I Input x cc istride row es g (i, e2) = Some (i', e2)"
proof (cases I)
  case Nearest
  with assms(1) obtain k where k: "to_intptr (dadd x (Fin (1 / 2))) = Some k"
    and f: "for_each (\<lambda>c. tap Input True (k + int c * istride) (row + int c * es) (Fin 1) g)
              [0 ..< cc] (i, e) = Some (i', e')"
    by (auto simp: step_def Nearest_step_def bind_eq_Some_conv)
  have "\<exists>t'. for_each (\<lambda>c. tap Input True (k + int c * istride) (row + int c * es) (Fin 1) g)
              [0 ..< cc] (i, e2) = Some t' \<and> (snd (i', e') = e \<and> t' = (fst (i', e'), e2))"
  proof (rule for_each_rel[OF f, where R = "\<lambda>s t. snd s = e \<and> t = (fst s, e2)"])
    show "snd (i, e) = e \<and> (i, e2) = (fst (i, e), e2)" by simp
  next
    fix c s t s'
    assume c: "c \<in> set [0 ..< cc]" and R: "snd s = e \<and> t = (fst s, e2)"
      and b: "tap Input True (k + int c * istride) (row + int c * es) (Fin 1) g s = Some s'"
    from R have s: "s = (fst s, e)" by (cases s) auto
    from b s have b': "tap Input True (k + int c * istride) (row + int c * es) (Fin 1) g (fst s, e)
        = Some (fst s', snd s')" by simp
    from c have "c < cc" by simp
    note ag = assms(2)[OF this]
    from tap_Input(1)[OF b'] tap_Input(2)[OF b' ag] R
    show "\<exists>t'. tap Input True (k + int c * istride) (row + int c * es) (Fin 1) g t = Some t' \<and>
            (snd s' = e \<and> t' = (fst s', e2))"
      by simp
  qed
  then show ?thesis using Nearest k by (auto simp: step_def Nearest_step_def)
next
  case Bilinear
  define body where "body = (\<lambda>k fr c m. tap Input True (k + 1 + int c * istride) (row + int c * es) fr g m
       \<bind> tap Input False (k + 0 + int c * istride) (row + int c * es) (dsub (Fin 1) fr) g)"
  from Bilinear assms(1) obtain k where k: "to_intptr x = Some k"
    and f: "for_each (body k (dsub x (of_int32 k))) [0 ..< cc] (i, e) = Some (i', e')"
    by (auto simp: step_def Bilinear_step_def bind_eq_Some_conv Let_def body_def)
  have "\<exists>t'. for_each (body k (dsub x (of_int32 k))) [0 ..< cc] (i, e2) = Some t' \<and>
           (snd (i', e') = e \<and> t' = (fst (i', e'), e2))"
  proof (rule for_each_rel[OF f, where R = "\<lambda>s t. snd s = e \<and> t = (fst s, e2)"])
    show "snd (i, e) = e \<and> (i, e2) = (fst (i, e), e2)" by simp
  next
    fix c s t s'
    assume c: "c \<in> set [0 ..< cc]" and R: "snd s = e \<and> t = (fst s, e2)"
      and b: "body k (dsub x (of_int32 k)) c s = Some s'"
    from R have s: "s = (fst s, e)" by (cases s) auto
    from b obtain m1 where
      b1: "tap Input True (k + 1 + int c * istride) (row + int c * es) (dsub x (of_int32 k)) g s = Some m1"
      and b2: "tap Input False (k + 0 + int c * istride) (row + int c * es)
                 (dsub (Fin 1) (dsub x (of_int32 k))) g m1 = Some s'"
      by (auto simp: body_def bind_eq_Some_conv)
    from b1 s have b1': "tap Input True (k + 1 + int c * istride) (row + int c * es) (dsub x (of_int32 k)) g
        (fst s, e) = Some (fst m1, snd m1)" by simp
    from c have "c < cc" by simp
    note ag = assms(2)[OF this]
    from tap_Input(1)[OF b1'] have m1: "m1 = (fst m1, e)" by (cases m1) auto
    from b2 m1 have b2': "tap Input False (k + 0 + int c * istride) (row + int c * es)
                 (dsub (Fin 1) (dsub x (of_int32 k))) g (fst m1, e) = Some (fst s', snd s')" by simp
    from tap_Input(2)[OF b1' ag] tap_Input(1)[OF b2'] tap_Input(2)[OF b2' ag] R
    show "\<exists>t'. body k (dsub x (of_int32 k)) c t = Some t' \<and> (snd s' = e \<and> t' = (fst s', e2))"
      by (simp add: body_def)
  qed
  then show ?thesis using Bilinear k by (auto simp: step_def Bilinear_step_def Let_def body_def)
qed

lemma step_Output:
  assumes "step I Output x cc istride row es g (i, e) = Some (i', e')"
  shows "i' = i \<and> ((\<forall>c < cc. a \<noteq> row + int c * es) \<longrightarrow> load e' a = load e a)"
proof (cases I)
  case Nearest
  with assms(1) obtain k where
    f: "for_each (\<lambda>c. tap Output True (k + int c * istride) (row + int c * es) (Fin 1) g)
              [0 ..< cc] (i, e) = Some (i', e')"
    by (auto simp: step_def Nearest_step_def bind_eq_Some_conv)
  have "fst (i', e') = i \<and> ((\<forall>c < cc. a \<noteq> row + int c * es) \<longrightarrow> load (snd (i', e')) a = load e a)"
  proof (rule for_each_inv[OF f, where P = "\<lambda>s. fst s = i \<and>
            ((\<forall>c < cc. a \<noteq> row + int c * es) \<longrightarrow> load (snd s) a = load e a)"])
    show "fst (i, e) = i \<and> ((\<forall>c < cc. a \<noteq> row + int c * es) \<longrightarrow> load (snd (i, e)) a = load e a)"
      by simp
  next
    fix c s s'
    assume c: "c \<in> set [0 ..< cc]"
      and P: "fst s = i \<and> ((\<forall>c < cc. a \<noteq> row + int c * es) \<longrightarrow> load (snd s) a = load e a)"
      and b: "tap Output True (k + int c * istride) (row + int c * es) (Fin 1) g s = Some s'"
    from b have b': "tap Output True (k + int c * istride) (row + int c * es) (Fin 1) g (fst s, snd s)
        = Some (fst s', snd s')" by simp
    from c have "c < cc" by simp
    with tap_Output(1)[OF b'] tap_Output(2)[OF b', of a] P
    show "fst s' = i \<and> ((\<forall>c < cc. a \<noteq> row + int c * es) \<longrightarrow> load (snd s') a = load e a)"
      by auto
  qed
  then show ?thesis by simp
next
  case Bilinear
  define body where "body = (\<lambda>k fr c m. tap Output True (k + 1 + int c * istride) (row + int c * es) fr g m
       \<bind> tap Output False (k + 0 + int c * istride) (row + int c * es) (dsub (Fin 1) fr) g)"
  from Bilinear assms(1) obtain k where
    f: "for_each (body k (dsub x (of_int32 k))) [0 ..< cc] (i, e) = Some (i', e')"
    by (auto simp: step_def Bilinear_step_def bind_eq_Some_conv Let_def body_def)
  have "fst (i', e') = i \<and> ((\<forall>c < cc. a \<noteq> row + int c * es) \<longrightarrow> load (snd (i', e')) a = load e a)"
  proof (rule for_each_inv[OF f, where P = "\<lambda>s. fst s = i \<and>
            ((\<forall>c < cc. a \<noteq> row + int c * es) \<longrightarrow> load (snd s) a = load e a)"])
    show "fst (i, e) = i \<and> ((\<forall>c < cc. a \<noteq> row + int c * es) \<longrightarrow> load (snd (i, e)) a = load e a)"
      by simp
  next
    fix c s s'
    assume c: "c \<in> set [0 ..< cc]"
      and P: "fst s = i \<and> ((\<forall>c < cc. a \<noteq> row + int c * es) \<longrightarrow> load (snd s) a = load e a)"
      and b: "body k (dsub x (of_int32 k)) c s = Some s'"
    from b obtain m1 where
      b1: "tap Output True (k + 1 + int c * istride) (row + int c * es) (dsub x (of_int32 k)) g
             (fst s, snd s) = Some (fst m1, snd m1)"
      and b2: "tap Output False (k + 0 + int c * istride) (row + int c * es)
                 (dsub (Fin 1) (dsub x (of_int32 k))) g (fst m1, snd m1) = Some (fst s', snd s')"
      by (auto simp: body_def bind_eq_Some_conv)
    from c have "c < cc" by simp
    with tap_Output(1)[OF b1] tap_Output(2)[OF b1, of a] tap_Output(1)[OF b2] tap_Output(2)[OF b2, of a] P
    show "fst s' = i \<and> ((\<forall>c < cc. a \<noteq> row + int c * es) \<longrightarrow> load (snd s') a = load e a)"
      by auto
  qed
  then show ?thesis by simp
qed

lemma unmuted_cell:
  "row < activeFrameCount ext \<Longrightarrow> unmutedBegin ext \<le> row \<Longrightarrow> row < unmutedEnd ext \<Longrightarrow>
   c < ref_cols ext \<Longrightarrow> int row + int c * ref_colStride ext \<in> set (unmuted_cells ext)"
  by (auto simp: unmuted_cells_def intro!: exI[of _ row])


lemma run_row_Input:
  assumes "run_row I Input k istride cc es ub ue row (rs, i, e) = Some (rs', i', e')"
    and "\<And>c. ub \<le> row \<Longrightarrow> row < ue \<Longrightarrow> c < cc \<Longrightarrow>
           load e2 (int row + int c * es) = load e (int row + int c * es)"
  shows "e' = e \<and> run_row I Input k istride cc es ub ue row (rs, i, e2) = Some (rs', i', e2)"
proof (cases "ub \<le> row \<and> row < ue")
  case True
  with assms(1) have st: "step I Input (state_x rs) cc istride (int row) es (state_ratio rs) (i, e)
       = Some (i', e')" and rs: "rs' = RatioState_step k rs"
    by (auto simp: run_row_def bind_eq_Some_conv)
  from step_Input[OF st, of e2] assms(2) True rs show ?thesis
    by (simp add: run_row_def)
next
  case False
  with assms(1) show ?thesis
    by (auto simp: run_row_def bind_eq_Some_conv)
qed

lemma run_row_Output:
  assumes "run_row I Output k istride cc es ub ue row (rs, i, e) = Some (rs', i', e')"
  shows "i' = i \<and>
         ((ub \<le> row \<and> row < ue \<longrightarrow> (\<forall>c < cc. a \<noteq> int row + int c * es)) \<longrightarrow>
            load e' a = load e a)"
proof (cases "ub \<le> row \<and> row < ue")
  case True
  with assms(1) have st: "step I Output (state_x rs) cc istride (int row) es (state_ratio rs) (i, e)
       = Some (i', e')"
    by (auto simp: run_row_def bind_eq_Some_conv)
  from step_Output[OF st, of a] True show ?thesis
    by simp
next
  case False
  with assms(1) show ?thesis
    by (auto simp: run_row_def bind_eq_Some_conv)
qed

lemma run_Input:
  assumes "run I Input k rs internal external = Some (rs', internal', external')"
    and "\<And>a. a \<in> set (unmuted_cells external) \<Longrightarrow> load other a = load (ref external) a"
  shows "ref external' = ref external \<and>
         run I Input k rs internal (external\<lparr>ref := other\<rparr>)
           = Some (rs', internal', external'\<lparr>ref := other\<rparr>)"
proof -
  define body where "body = run_row I Input k (array_colStride internal) (ref_cols external)
     (ref_colStride external) (unmutedBegin external) (unmutedEnd external)"
  define zeroed where "zeroed = map (\<lambda>_. Fin 0) (array internal)"
  from assms(1) obtain r1 i1 e1 where
    f: "for_each body [0 ..< activeFrameCount external] (rs, zeroed, ref external) = Some (r1, i1, e1)"
    and out: "rs' = r1" "internal' = internal\<lparr>array := i1\<rparr>" "external' = external\<lparr>ref := e1\<rparr>"
    by (auto simp: run_def bind_eq_Some_conv Let_def body_def zeroed_def)
  have "\<exists>t'. for_each body [0 ..< activeFrameCount external] (rs, zeroed, other) = Some t' \<and>
          (snd (snd (r1, i1, e1)) = ref external \<and>
           t' = (fst (r1, i1, e1), fst (snd (r1, i1, e1)), other))"
  proof (rule for_each_rel[OF f, where R = "\<lambda>s t. snd (snd s) = ref external \<and>
                                              t = (fst s, fst (snd s), other)"])
    show "snd (snd (rs, zeroed, ref external)) = ref external \<and>
          (rs, zeroed, other) = (fst (rs, zeroed, ref external), fst (snd (rs, zeroed, ref external)), other)"
      by simp
  next
    fix row s t s'
    assume row: "row \<in> set [0 ..< activeFrameCount external]"
      and R: "snd (snd s) = ref external \<and> t = (fst s, fst (snd s), other)"
      and b: "body row s = Some s'"
    obtain r0 i0 e0 where s: "s = (r0, i0, e0)" by (cases s) auto
    obtain r2 i2 e2 where s': "s' = (r2, i2, e2)" by (cases s') auto
    from R s have e0: "e0 = ref external" and t: "t = (r0, i0, other)" by auto
    from b have b': "run_row I Input k (array_colStride internal) (ref_cols external)
        (ref_colStride external) (unmutedBegin external) (unmutedEnd external) row
        (r0, i0, ref external) = Some (r2, i2, e2)"
      by (simp add: body_def s s' e0)
    have ag: "\<And>c. unmutedBegin external \<le> row \<Longrightarrow> row < unmutedEnd external \<Longrightarrow>
        c < ref_cols external \<Longrightarrow>
        load other (int row + int c * ref_colStride external)
          = load (ref external) (int row + int c * ref_colStride external)"
      using row by (intro assms(2) unmuted_cell) auto
    from run_row_Input[OF b', of other] ag
    show "\<exists>t'. body row t = Some t' \<and>
            (snd (snd s') = ref external \<and> t' = (fst s', fst (snd s'), other))"
      by (simp add: body_def s' t)
  qed
  then have e1: "e1 = ref external"
    and f2: "for_each body [0 ..< activeFrameCount external] (rs, zeroed, other) = Some (r1, i1, other)"
    by auto
  from f2 have "run I Input k rs internal (external\<lparr>ref := other\<rparr>)
      = Some (r1, internal\<lparr>array := i1\<rparr>, external\<lparr>ref := other\<rparr>)"
    by (simp add: run_def Let_def body_def zeroed_def)
  with out e1 show ?thesis by simp
qed

lemma run_Output:
  assumes "run I Output k rs internal external = Some (rs', internal', external')"
  shows "array internal' = array internal \<and>
         (a \<notin> set (unmuted_cells external) \<longrightarrow> load (ref external') a = load (ref external) a)"
proof -
  define body where "body = run_row I Output k (array_colStride internal) (ref_cols external)
     (ref_colStride external) (unmutedBegin external) (unmutedEnd external)"
  from assms(1) obtain r1 i1 e1 where
    f: "for_each body [0 ..< activeFrameCount external] (rs, array internal, ref external) = Some (r1, i1, e1)"
    and out: "internal' = internal\<lparr>array := i1\<rparr>" "external' = external\<lparr>ref := e1\<rparr>"
    by (auto simp: run_def bind_eq_Some_conv Let_def body_def)
  have "fst (snd (r1, i1, e1)) = array internal \<and>
        (a \<notin> set (unmuted_cells external) \<longrightarrow> load (snd (snd (r1, i1, e1))) a = load (ref external) a)"
  proof (rule for_each_inv[OF f, where P = "\<lambda>s. fst (snd s) = array internal \<and>
           (a \<notin> set (unmuted_cells external) \<longrightarrow> load (snd (snd s)) a = load (ref external) a)"])
    show "fst (snd (rs, array internal, ref external)) = array internal \<and>
          (a \<notin> set (unmuted_cells external) \<longrightarrow>
             load (snd (snd (rs, array internal, ref external))) a = load (ref external) a)"
      by simp
  next
    fix row s s'
    assume row: "row \<in> set [0 ..< activeFrameCount external]"
      and P: "fst (snd s) = array internal \<and>
              (a \<notin> set (unmuted_cells external) \<longrightarrow> load (snd (snd s)) a = load (ref external) a)"
      and b: "body row s = Some s'"
    from b have b': "run_row I Output k (array_colStride internal) (ref_cols external)
        (ref_colStride external) (unmutedBegin external) (unmutedEnd external) row
        (fst s, fst (snd s), snd (snd s)) = Some (fst s', fst (snd s'), snd (snd s'))"
      by (simp add: body_def)
    have ne: "a \<notin> set (unmuted_cells external) \<Longrightarrow>
        unmutedBegin external \<le> row \<and> row < unmutedEnd external \<longrightarrow>
        (\<forall>c < ref_cols external. a \<noteq> int row + int c * ref_colStride external)"
      using row unmuted_cell[of row external] by auto
    from run_row_Output[OF b', of a] ne P
    show "fst (snd s') = array internal \<and>
          (a \<notin> set (unmuted_cells external) \<longrightarrow> load (snd (snd s')) a = load (ref external) a)"
      by auto
  qed
  with out show ?thesis by simp
qed

text \<open>
  When the rows of the external buffer do not overlap (the column stride is at least the
  number of active rows), no cell of a row outside the unmuted range is a cell of a row
  inside it.
\<close>

lemma muted_cell:
  assumes "int (activeFrameCount ext) \<le> ref_colStride ext"
    and "row < activeFrameCount ext" and "\<not> (unmutedBegin ext \<le> row \<and> row < unmutedEnd ext)"
  shows "int row + int c * ref_colStride ext \<notin> set (unmuted_cells ext)"
proof
  assume "int row + int c * ref_colStride ext \<in> set (unmuted_cells ext)"
  then obtain row' c' where r': "row' < activeFrameCount ext" "unmutedBegin ext \<le> row'" "row' < unmutedEnd ext"
    and eq: "int row + int c * ref_colStride ext = int row' + int c' * ref_colStride ext"
    by (auto simp: unmuted_cells_def)
  from assms(2) have pos: "0 < ref_colStride ext" using assms(1) by simp
  have "(int row + int c * ref_colStride ext) mod ref_colStride ext = int row"
    using assms(1,2) by simp
  moreover have "(int row' + int c' * ref_colStride ext) mod ref_colStride ext = int row'"
    using assms(1) r'(1) by simp
  ultimately have "row = row'" using eq by simp
  with r' assms(3) show False by simp
qed

lemmas run_eval = run_def run_row_def step_def Bilinear_step_def Nearest_step_def tap_def filterTap_def
  load_def store_def RatioState_init_def RatioState_step_def example_internal_def example_external_def
  example_ratioState_def unmuted_cells_def of_int32_def dsub_def ctrunc_def Let_def upt_rec

lemma run_example_Output:
  "run Bilinear Output True example_ratioState example_internal example_external
   = Some (\<lparr>ratioGradient = Fin 0, state_ratio = Fin 1, state_x = Fin 2\<rparr>,
           example_internal, example_external\<lparr>ref := [Fin 5, Fin 2]\<rparr>)"
  by (simp add: run_eval)

lemma run_example_Input:
  "run Bilinear Input True example_ratioState example_internal (example_external\<lparr>ref := [v, Fin 6]\<rparr>)
   = Some (\<lparr>ratioGradient = Fin 0, state_ratio = Fin 1, state_x = Fin 2\<rparr>,
           example_internal\<lparr>array := [Fin 0, Fin 6, Fin 0]\<rparr>, example_external\<lparr>ref := [v, Fin 6]\<rparr>)"
  by (simp add: run_eval)

text \<open>
  Claim C6, as amended. For every run of the resampling loop with a defined result: in
  output mode the internal array is unchanged and every cell of the external buffer that is
  no cell of a row inside \<open>[unmutedBegin, unmutedEnd)\<close> keeps its contents, in particular
  (when the column stride is at least the number of active rows) every cell of a row
  outside that range: such rows are left as they are, not set to zero. In input mode the
  external buffer is unchanged, and the result depends on its cells in the rows inside the
  range only: any other contents of the external buffer that agree on these cells give the
  same ratio state and the same internal array.
\<close>

theorem run_mute_frame:
  "(run I Output k rs internal external = Some (rs', internal', external') \<longrightarrow>
      array internal' = array internal \<and>
      (\<forall>a. a \<notin> set (unmuted_cells external) \<longrightarrow>
           load (ref external') a = load (ref external) a) \<and>
      (int (activeFrameCount external) \<le> ref_colStride external \<longrightarrow>
         (\<forall>row c. row < activeFrameCount external \<and>
                  \<not> (unmutedBegin external \<le> row \<and> row < unmutedEnd external) \<longrightarrow>
            load (ref external') (int row + int c * ref_colStride external)
              = load (ref external) (int row + int c * ref_colStride external)))) \<and>
   (run I Input k rs internal external = Some (rs', internal', external') \<longrightarrow>
      ref external' = ref external \<and>
      (\<forall>other. (\<forall>a \<in> set (unmuted_cells external). load other a = load (ref external) a) \<longrightarrow>
         run I Input k rs internal (external\<lparr>ref := other\<rparr>)
           = Some (rs', internal', external'\<lparr>ref := other\<rparr>)))"
proof (intro conjI impI allI)
  assume r: "run I Output k rs internal external = Some (rs', internal', external')"
  show "array internal' = array internal"
    using run_Output[OF r] by simp
next
  fix a
  assume r: "run I Output k rs internal external = Some (rs', internal', external')"
    and a: "a \<notin> set (unmuted_cells external)"
  show "load (ref external') a = load (ref external) a"
    using run_Output[OF r, of a] a by simp
next
  fix row c
  assume r: "run I Output k rs internal external = Some (rs', internal', external')"
    and w: "int (activeFrameCount external) \<le> ref_colStride external"
    and m: "row < activeFrameCount external \<and>
            \<not> (unmutedBegin external \<le> row \<and> row < unmutedEnd external)"
  from m have "int row + int c * ref_colStride external \<notin> set (unmuted_cells external)"
    by (intro muted_cell[OF w]) auto
  with run_Output[OF r, of "int row + int c * ref_colStride external"]
  show "load (ref external') (int row + int c * ref_colStride external)
          = load (ref external) (int row + int c * ref_colStride external)"
    by simp
next
  assume r: "run I Input k rs internal external = Some (rs', internal', external')"
  show "ref external' = ref external"
    using run_Input[OF r, of "ref external"] by simp
next
  fix other
  assume r: "run I Input k rs internal external = Some (rs', internal', external')"
    and a: "\<forall>a \<in> set (unmuted_cells external). load other a = load (ref external) a"
  show "run I Input k rs internal (external\<lparr>ref := other\<rparr>)
           = Some (rs', internal', external'\<lparr>ref := other\<rparr>)"
    using run_Input[OF r, of other] a by simp
qed

theorem run_mute_frame_witness:
  "run Bilinear Output True example_ratioState example_internal example_external
     = Some (\<lparr>ratioGradient = Fin 0, state_ratio = Fin 1, state_x = Fin 2\<rparr>,
             example_internal, example_external\<lparr>ref := [Fin 5, Fin 2]\<rparr>) \<and>
   0 \<notin> set (unmuted_cells example_external) \<and>
   int (activeFrameCount example_external) \<le> ref_colStride example_external \<and>
   load [Fin 5, Fin 2] 0 = load (ref example_external) 0 \<and>
   run Bilinear Input True example_ratioState example_internal example_external
     = Some (\<lparr>ratioGradient = Fin 0, state_ratio = Fin 1, state_x = Fin 2\<rparr>,
             example_internal\<lparr>array := [Fin 0, Fin 6, Fin 0]\<rparr>, example_external) \<and>
   unmuted_cells example_external = [1] \<and>
   load [Fin 9, Fin 6] 1 = load (ref example_external) 1 \<and>
   run Bilinear Input True example_ratioState example_internal (example_external\<lparr>ref := [Fin 9, Fin 6]\<rparr>)
     = Some (\<lparr>ratioGradient = Fin 0, state_ratio = Fin 1, state_x = Fin 2\<rparr>,
             example_internal\<lparr>array := [Fin 0, Fin 6, Fin 0]\<rparr>,
             example_external\<lparr>ref := [Fin 9, Fin 6]\<rparr>)"
proof -
  have i: "run Bilinear Input True example_ratioState example_internal example_external
     = Some (\<lparr>ratioGradient = Fin 0, state_ratio = Fin 1, state_x = Fin 2\<rparr>,
             example_internal\<lparr>array := [Fin 0, Fin 6, Fin 0]\<rparr>, example_external)"
    using run_example_Input[of "Fin 5"] by (simp add: example_external_def)
  have c: "\<forall>a \<in> set (unmuted_cells example_external). load [Fin 9, Fin 6] a = load (ref example_external) a"
    by (simp add: unmuted_cells_def example_external_def load_def upt_rec)
  have z: "0 \<notin> set (unmuted_cells example_external)"
    "int (activeFrameCount example_external) \<le> ref_colStride example_external"
    by (simp_all add: unmuted_cells_def example_external_def upt_rec)
  note t = run_mute_frame[of Bilinear True example_ratioState example_internal example_external
      "\<lparr>ratioGradient = Fin 0, state_ratio = Fin 1, state_x = Fin 2\<rparr>"]
  from t[of example_internal "example_external\<lparr>ref := [Fin 5, Fin 2]\<rparr>"] run_example_Output z
  have o: "load [Fin 5, Fin 2] 0 = load (ref example_external) 0"
    by simp
  from t[of "example_internal\<lparr>array := [Fin 0, Fin 6, Fin 0]\<rparr>" example_external] i c
  have i2: "run Bilinear Input True example_ratioState example_internal (example_external\<lparr>ref := [Fin 9, Fin 6]\<rparr>)
     = Some (\<lparr>ratioGradient = Fin 0, state_ratio = Fin 1, state_x = Fin 2\<rparr>,
             example_internal\<lparr>array := [Fin 0, Fin 6, Fin 0]\<rparr>,
             example_external\<lparr>ref := [Fin 9, Fin 6]\<rparr>)"
    by simp
  have u: "unmuted_cells example_external = [1]"
    by (simp add: unmuted_cells_def example_external_def upt_rec)
  have v: "load [Fin 9, Fin 6] 1 = load (ref example_external) 1"
    by (simp add: example_external_def load_def)
  show ?thesis
    by (intro conjI) (rule run_example_Output z o i u v i2)+
qed

text \<open>
  The claim as stated fails in output mode: row 0 of the example lies outside the unmuted
  range and holds 5 before and after the run, not zero.
\<close>

theorem run_output_muted_row_not_zeroed:
  "run Bilinear Output True example_ratioState example_internal example_external
     = Some (\<lparr>ratioGradient = Fin 0, state_ratio = Fin 1, state_x = Fin 2\<rparr>,
             example_internal, example_external\<lparr>ref := [Fin 5, Fin 2]\<rparr>) \<and>
   \<not> (unmutedBegin example_external \<le> 0 \<and> 0 < unmutedEnd example_external) \<and>
   load [Fin 5, Fin 2] (0 + 0 * ref_colStride example_external) = Some (Fin 5) \<and>
   Fin 5 \<noteq> Fin 0"
  by (simp add: run_example_Output) (simp add: example_external_def load_def)

text \<open>
  An input-mode run of the resampler over an external buffer whose unmuted range is empty,
  as it is for a head count of all frames and a tail count of 0: no row is read, and the
  internal buffer is left all zero.
\<close>

lemma for_each_skip:
  assumes "\<And>row s. row \<in> set rows \<Longrightarrow> body row s = Some (f (fst s), snd s)"
  shows "\<exists>rs'. for_each body rows (rs, m) = Some (rs', m)"
  using assms
proof (induction rows arbitrary: rs)
  case Nil
  then show ?case by simp
next
  case (Cons row rows)
  then show ?case by simp
qed

lemma run_input_all_muted:
  assumes "unmutedEnd external \<le> unmutedBegin external"
  shows "\<exists>rs'. run interpolation Input ratioIsConstant rs internal external
           = Some (rs', internal\<lparr>array := map (\<lambda>_. Fin 0) (array internal)\<rparr>, external)"
proof -
  let ?body = "run_row interpolation Input ratioIsConstant (array_colStride internal)
                 (ref_cols external) (ref_colStride external)
                 (unmutedBegin external) (unmutedEnd external)"
  have skip: "?body row s = Some (RatioState_step ratioIsConstant (fst s), snd s)" for row s
    using assms by (auto simp: run_row_def)
  obtain rs' where
    "for_each ?body [0 ..< activeFrameCount external]
       (rs, map (\<lambda>_. Fin 0) (array internal), ref external)
     = Some (rs', map (\<lambda>_. Fin 0) (array internal), ref external)"
    using for_each_skip[where body = ?body and f = "RatioState_step ratioIsConstant"
        and rows = "[0 ..< activeFrameCount external]" and rs = rs
        and m = "(map (\<lambda>_. Fin 0) (array internal), ref external)", OF skip]
    by blast
  then show ?thesis
    by (simp add: run_def)
qed

end
